theory Spec2Isabelle
  imports Main "HOL-Library.Word"
begin

section \<open>Windows base types\<close>

text \<open>
  The source is \<^verbatim>\<open>pdbhelper.cpp\<close>. \<^verbatim>\<open>HRESULT\<close> and \<^verbatim>\<open>LONG\<close> are 32-bit
  two's complement values, \<^verbatim>\<open>DWORD\<close> and \<^verbatim>\<open>ULONG\<close> 32-bit unsigned ones: all are
  \<open>32 word\<close>, read with \<open>sint\<close> or \<open>unat\<close>. The assignment of a \<^verbatim>\<open>DWORD\<close> to
  a \<^verbatim>\<open>LONG\<close> (line 141) keeps the bits. A \<^verbatim>\<open>BSTR\<close> is a pointer: \<open>None\<close> is
  \<^verbatim>\<open>NULL\<close>. A \<^verbatim>\<open>GUID\<close> is 16 bytes and is compared with \<^verbatim>\<open>memcmp\<close>.
\<close>

type_synonym HRESULT = "32 word"
type_synonym DWORD = "32 word"
type_synonym LONG = "32 word"
type_synonym ULONG = "32 word"
type_synonym GUID = "128 word"
type_synonym BSTR = "string option"

definition S_OK :: HRESULT where
  "S_OK = 0"

definition S_FALSE :: HRESULT where
  "S_FALSE = 1"

definition E_FAIL :: HRESULT where
  "E_FAIL = 0x80004005"

definition FAILED :: "HRESULT \<Rightarrow> bool" where
  "FAILED hr = (sint hr < 0)"

definition SysStringLen :: "BSTR \<Rightarrow> nat" where
  "SysStringLen b = (case b of None \<Rightarrow> 0 | Some s \<Rightarrow> length s)"

definition SysAllocString :: "string \<Rightarrow> BSTR" where
  "SysAllocString s = Some s"

text \<open>
  A dereference of a \<^verbatim>\<open>NULL\<close> interface pointer does not return: it is a result of its
  own.
\<close>

datatype 'a outcome = AccessViolation | Returns 'a

text \<open>
  \<open>deref p crash k\<close>: the code goes on with the interface \<open>p\<close> points to, and there is
  no check of \<open>p\<close> before the call through it.
\<close>

definition deref :: "'a option \<Rightarrow> 'r \<Rightarrow> ('a \<Rightarrow> 'r) \<Rightarrow> 'r" where
  "deref p crash k = (case p of None \<Rightarrow> crash | Some x \<Rightarrow> k x)"

section \<open>Formatting of the diagnostic\<close>

definition hex_digit :: "nat \<Rightarrow> char" where
  "hex_digit d = ''0123456789ABCDEF'' ! d"

fun hex_of_nat :: "nat \<Rightarrow> string" where
  "hex_of_nat n =
     (if n < 16 then [hex_digit n] else hex_of_nat (n div 16) @ [hex_digit (n mod 16)])"

declare hex_of_nat.simps [simp del]

text \<open>The conversion \<^verbatim>\<open>%lX\<close> is the only one the format strings of the source use.\<close>

fun format_lX :: "string \<Rightarrow> string \<Rightarrow> string" where
  "format_lX [] h = []"
| "format_lX (c # rest) h =
     (if c = CHR ''%'' \<and> take 2 rest = ''lX'' then h @ format_lX (drop 2 rest) h
      else c # format_lX rest h)"

text \<open>
  \<^verbatim>\<open>StringCchPrintfW(ErrorMessageFmtBuffer, _countof(ErrorMessageFmtBuffer), fmt, Hr)\<close>
  with a buffer of 256 characters: at most 255 characters and the terminator are written.
  The value is the new content of the buffer.
\<close>

definition StringCchPrintfW :: "string \<Rightarrow> HRESULT \<Rightarrow> string" where
  "StringCchPrintfW fmt Hr = take 255 (format_lX fmt (hex_of_nat (unat Hr)))"

section \<open>The DIA interfaces, as the answers the code receives\<close>

text \<open>
  The debug-information provider is outside the repository. Each interface is the record
  of the answers of its methods: the \<^verbatim>\<open>HRESULT\<close> and the value left in the out
  parameter. An interface pointer left \<^verbatim>\<open>NULL\<close> is \<open>None\<close>.
\<close>

record IDiaSymbol =
  get_undecoratedName :: "HRESULT \<times> BSTR"
  get_name :: "HRESULT \<times> BSTR"
  get_guid :: "HRESULT \<times> GUID"
  get_signature :: "HRESULT \<times> DWORD"
  get_age :: "HRESULT \<times> DWORD"

record IDiaSourceFile =
  get_fileName :: "HRESULT \<times> BSTR"

record IDiaLineNumber =
  get_lineNumber :: "HRESULT \<times> DWORD"
  get_sourceFile :: "HRESULT \<times> IDiaSourceFile option"

record IDiaEnumLineNumbers =
  Next :: "ULONG \<Rightarrow> HRESULT \<times> IDiaLineNumber option \<times> ULONG"

record IDiaSession =
  findSymbolByRVAEx :: "DWORD \<Rightarrow> HRESULT \<times> IDiaSymbol option \<times> LONG"
  findLinesByRVA :: "DWORD \<Rightarrow> DWORD \<Rightarrow> HRESULT \<times> IDiaEnumLineNumbers option"
  get_globalScope :: "HRESULT \<times> IDiaSymbol option"

record IDiaDataSource =
  loadDataFromPdb :: "string \<Rightarrow> HRESULT"
  loadDataForExe :: "string \<Rightarrow> HRESULT"
  openSession :: "HRESULT \<times> IDiaSession option"

text \<open>
  The COM runtime: the answer of \<^verbatim>\<open>CoInitialize\<close> and, for the n-th call of
  \<^verbatim>\<open>CoCreateInstance\<close> in one run (counted from 0), its answer.
\<close>

record COM =
  CoInitialize :: HRESULT
  CoCreateInstance :: "nat \<Rightarrow> HRESULT \<times> IDiaDataSource option"

section \<open>ResolveStackFrameSymbolsInternal\<close>

text \<open>
  Both entry points have the out parameter \<^verbatim>\<open>ErrorMessageOut\<close>; the other out
  parameters extend it.
\<close>

record diagnostic_out =
  ErrorMessageOut :: BSTR

record frame_out = diagnostic_out +
  FileNameOut :: BSTR
  LineNumberOut :: LONG
  FunctionNameOut :: BSTR
  DisplacementOut :: LONG

record match_out = diagnostic_out +
  IsMatched :: bool

text \<open>Lines 85 to 90: the function name.\<close>

definition GetFunctionName :: "IDiaSymbol \<Rightarrow> BSTR" where
  "GetFunctionName Symbol =
     (if fst (get_undecoratedName Symbol) \<noteq> S_OK
         \<or> SysStringLen (snd (get_undecoratedName Symbol)) = 0
      then (if fst (get_name Symbol) \<noteq> S_OK \<or> SysStringLen (snd (get_name Symbol)) = 0
            then SysAllocString ''(None)''
            else snd (get_name Symbol))
      else snd (get_undecoratedName Symbol))"

text \<open>
  The label \<^verbatim>\<open>Exit\<close> (lines 146 to 154): the strings freed there were never stored in an
  out parameter, so what is left to see is the copy of the format buffer and the status.
\<close>

definition Internal_Exit :: "HRESULT \<Rightarrow> string \<Rightarrow> frame_out \<Rightarrow> (HRESULT \<times> frame_out) outcome" where
  "Internal_Exit Hr ErrorMessageFmtBuffer out =
     Returns (Hr, out\<lparr>ErrorMessageOut := SysAllocString ErrorMessageFmtBuffer\<rparr>)"

text \<open>
  \<open>Buffer0\<close> is what the local array \<^verbatim>\<open>ErrorMessageFmtBuffer\<close>, which has no
  initialiser, holds on entry (up to its first terminator); \<open>out\<close> holds the out
  parameters as the caller left them. At line 97 the status formatted and returned is the
  one of line 76, not the one of \<^verbatim>\<open>findLinesByRVA\<close>.
\<close>

definition ResolveStackFrameSymbolsInternal ::
  "IDiaSession \<Rightarrow> DWORD \<Rightarrow> string \<Rightarrow> frame_out \<Rightarrow> (HRESULT \<times> frame_out) outcome" where
  "ResolveStackFrameSymbolsInternal Session Rva Buffer0 out =
     (case findSymbolByRVAEx Session Rva of (Hr, Symbol, Displacement) \<Rightarrow>
      if FAILED Hr
      then Internal_Exit Hr (StringCchPrintfW ''Failed to find Symbol by RVA (HRESULT: 0x%lX)'' Hr) out
      else deref Symbol AccessViolation (\<lambda>pSymbol.
      let FunctionName = GetFunctionName pSymbol in
      case findLinesByRVA Session Rva 1 of (HrLines, DiaEnumLineNumbers) \<Rightarrow>
      if FAILED HrLines
      then Internal_Exit Hr (StringCchPrintfW ''Failed to find line info by RVA (HRESULT: 0x%lX)'' Hr) out
      else deref DiaEnumLineNumbers AccessViolation (\<lambda>pEnum.
      case Next pEnum 1 of (Hr, DiaLineNumber, Count) \<Rightarrow>
      if FAILED Hr \<or> Count \<noteq> 1
      then Internal_Exit Hr (StringCchPrintfW ''Failed to enumerate line number (HRESULT: 0x%lX)'' Hr) out
      else deref DiaLineNumber AccessViolation (\<lambda>pLine.
      case get_lineNumber pLine of (Hr, LineNumber) \<Rightarrow>
      if FAILED Hr
      then Internal_Exit Hr (StringCchPrintfW ''Failed to get line number (HRESULT: 0x%lX)'' Hr) out
      else case get_sourceFile pLine of (Hr, DiaSourceFile) \<Rightarrow>
      if FAILED Hr
      then Internal_Exit Hr (StringCchPrintfW ''Failed to get source file (HRESULT: 0x%lX)'' Hr) out
      else deref DiaSourceFile AccessViolation (\<lambda>pFile.
      case get_fileName pFile of (Hr, FileName) \<Rightarrow>
      if FAILED Hr
      then Internal_Exit Hr (StringCchPrintfW ''Failed to get source file name (HRESULT: 0x%lX)'' Hr) out
      else Internal_Exit S_OK Buffer0
             (out\<lparr>FileNameOut := FileName, LineNumberOut := LineNumber,
                  FunctionNameOut := FunctionName, DisplacementOut := Displacement\<rparr>))))))"

section \<open>ResolveStackFrameSymbols\<close>

text \<open>
  The label \<^verbatim>\<open>Cleanup\<close> (lines 236 to 241): after the releases, the format buffer of
  this function is copied to \<^verbatim>\<open>*ErrorMessageOut\<close>, whatever was stored there before.
\<close>

definition Resolve_Cleanup :: "HRESULT \<Rightarrow> string \<Rightarrow> frame_out \<Rightarrow> (HRESULT \<times> frame_out) outcome" where
  "Resolve_Cleanup Hr ErrorMessageFmtBuffer out =
     Returns (Hr, out\<lparr>ErrorMessageOut := SysAllocString ErrorMessageFmtBuffer\<rparr>)"

text \<open>
  \<open>Buffer0\<close> and \<open>InnerBuffer0\<close> are the entry contents of the two format buffers (the one
  of this function and the one of \<open>ResolveStackFrameSymbolsInternal\<close>), neither of which
  has an initialiser.
\<close>

definition ResolveStackFrameSymbols ::
  "COM \<Rightarrow> string \<Rightarrow> DWORD \<Rightarrow> string \<Rightarrow> string \<Rightarrow> (HRESULT \<times> frame_out) outcome" where
  "ResolveStackFrameSymbols com PdbFilePath Rva Buffer0 InnerBuffer0 =
     (let out = \<lparr>ErrorMessageOut = None, FileNameOut = None, LineNumberOut = 0,
                 FunctionNameOut = None, DisplacementOut = 0\<rparr>;
          Hr = CoInitialize com in
      if FAILED Hr
      then Resolve_Cleanup Hr (StringCchPrintfW ''Failed to initialize COM (HRESULT: 0x%lX)'' Hr) out
      else case CoCreateInstance com 0 of (Hr, DiaDataSource) \<Rightarrow>
      if FAILED Hr
      then Resolve_Cleanup Hr
             (StringCchPrintfW ''Failed to create DIA data source instance. (HRESULT: 0x%lX)'' Hr) out
      else deref DiaDataSource AccessViolation (\<lambda>pSource.
      let Hr = loadDataFromPdb pSource PdbFilePath in
      if FAILED Hr
      then Resolve_Cleanup Hr (StringCchPrintfW ''Failed to load PDB file (HRESULT: 0x%lX)'' Hr) out
      else case openSession pSource of (Hr, Session) \<Rightarrow>
      if FAILED Hr
      then Resolve_Cleanup Hr (StringCchPrintfW ''Failed to open DIA Session (HRESULT: 0x%lX)'' Hr) out
      else deref Session AccessViolation (\<lambda>pSession.
      (case ResolveStackFrameSymbolsInternal pSession Rva InnerBuffer0 out of
         AccessViolation \<Rightarrow> AccessViolation
       | Returns (Hr, out') \<Rightarrow> Resolve_Cleanup Hr Buffer0 out'))))"

section \<open>MatchModuleWithPdbFile\<close>

text \<open>
  The run is recorded as the sequence of its acquisitions and releases: which interface
  pointer was obtained or released, for the module (\<open>Exe\<close>) or for the debug store
  (\<open>Pdb\<close>), and the two calls of the COM runtime.
\<close>

datatype side = Exe | Pdb

datatype interface = DataSourceIf | SessionIf | SymbolIf

datatype event =
  EvCoInitialize
| EvCoUninitialize
| EvObtain side interface
| EvRelease side interface

definition obtained :: "side \<Rightarrow> interface \<Rightarrow> 'a option \<Rightarrow> event list" where
  "obtained s i p = (case p of None \<Rightarrow> [] | Some _ \<Rightarrow> [EvObtain s i])"

definition released :: "side \<Rightarrow> interface \<Rightarrow> 'a option \<Rightarrow> event list" where
  "released s i p = (case p of None \<Rightarrow> [] | Some _ \<Rightarrow> [EvRelease s i])"

text \<open>
  The label \<^verbatim>\<open>Cleanup\<close> (lines 438 to 444). \<open>s\<close> says whose pointers the three
  variables hold when the label is reached.
\<close>

definition Match_Cleanup ::
  "event list \<Rightarrow> side \<Rightarrow> IDiaSymbol option \<Rightarrow> IDiaSession option \<Rightarrow> IDiaDataSource option
   \<Rightarrow> HRESULT \<Rightarrow> string \<Rightarrow> bool \<Rightarrow> event list \<times> (HRESULT \<times> match_out) outcome" where
  "Match_Cleanup trace s DiaSymbol DiaSession DiaDataSource Hr ErrorMessageFmtBuffer Matched =
     (trace @ released s SymbolIf DiaSymbol @ released s SessionIf DiaSession
        @ released s DataSourceIf DiaDataSource @ [EvCoUninitialize],
      Returns (Hr, \<lparr>ErrorMessageOut = SysAllocString ErrorMessageFmtBuffer, IsMatched = Matched\<rparr>))"

text \<open>
  Lines 359 to 445: the second half of \<^verbatim>\<open>MatchModuleWithPdbFile\<close>, entered with the three
  pointer variables reset to \<^verbatim>\<open>NULL\<close> and the identity of the module in
  \<open>ExeGuid\<close>, \<open>ExeSignature\<close> and \<open>ExeAge\<close>. \<open>t4\<close> is the run so far, \<open>Buffer0\<close> the
  content of the format buffer, which nothing has written yet.
\<close>

definition MatchModuleWithPdbFile_Pdb ::
  "COM \<Rightarrow> string \<Rightarrow> string \<Rightarrow> event list \<Rightarrow> GUID \<Rightarrow> DWORD \<Rightarrow> DWORD
   \<Rightarrow> event list \<times> (HRESULT \<times> match_out) outcome" where
  "MatchModuleWithPdbFile_Pdb com PdbPath Buffer0 t4 ExeGuid ExeSignature ExeAge =
     (case CoCreateInstance com 1 of (Hr, DiaDataSource) \<Rightarrow>
      let t5 = t4 @ obtained Pdb DataSourceIf DiaDataSource in
      if FAILED Hr
      then Match_Cleanup t5 Pdb None None DiaDataSource Hr
             (StringCchPrintfW ''Failed to create DIA data source instance. (HRESULT: 0x%lX)'' Hr) False
      else deref DiaDataSource (t5, AccessViolation) (\<lambda>pSource.
      let Hr = loadDataFromPdb pSource PdbPath in
      if FAILED Hr
      then Match_Cleanup t5 Pdb None None DiaDataSource Hr
             (StringCchPrintfW ''Failed to load PDB file (HRESULT: 0x%lX)'' Hr) False
      else case openSession pSource of (Hr, DiaSession) \<Rightarrow>
      let t6 = t5 @ obtained Pdb SessionIf DiaSession in
      if FAILED Hr
      then Match_Cleanup t6 Pdb None DiaSession DiaDataSource Hr
             (StringCchPrintfW ''Failed to open DIA Session for PDB (HRESULT: 0x%lX)'' Hr) False
      else deref DiaSession (t6, AccessViolation) (\<lambda>pSession.
      case get_globalScope pSession of (Hr, DiaSymbol) \<Rightarrow>
      let t7 = t6 @ obtained Pdb SymbolIf DiaSymbol in
      if FAILED Hr
      then Match_Cleanup t7 Pdb DiaSymbol DiaSession DiaDataSource Hr
             (StringCchPrintfW ''Failed to get global scope of the PDB (HRESULT: 0x%lX)'' Hr) False
      else deref DiaSymbol (t7, AccessViolation) (\<lambda>pSymbol.
      case get_guid pSymbol of (Hr, PdbGuid) \<Rightarrow>
      if FAILED Hr
      then Match_Cleanup t7 Pdb DiaSymbol DiaSession DiaDataSource Hr
             (StringCchPrintfW ''Failed to get GUID of the PDB (HRESULT: 0x%lX)'' Hr) False
      else case get_signature pSymbol of (Hr, PdbSignature) \<Rightarrow>
      if FAILED Hr
      then Match_Cleanup t7 Pdb DiaSymbol DiaSession DiaDataSource Hr
             (StringCchPrintfW ''Failed to get signature of the PDB (HRESULT: 0x%lX)'' Hr) False
      else case get_age pSymbol of (Hr, PdbAge) \<Rightarrow>
      if FAILED Hr
      then Match_Cleanup t7 Pdb DiaSymbol DiaSession DiaDataSource Hr
             (StringCchPrintfW ''Failed to get age of the PDB (HRESULT: 0x%lX)'' Hr) False
      else Match_Cleanup t7 Pdb DiaSymbol DiaSession DiaDataSource S_OK Buffer0
             (PdbGuid = ExeGuid \<and> PdbSignature = ExeSignature \<and> PdbAge = ExeAge)))))"

text \<open>
  \<open>Buffer0\<close> is the entry content of \<^verbatim>\<open>ErrorMessageFmtBuffer\<close>, which has no
  initialiser. \<^verbatim>\<open>*IsMatched\<close> is \<open>False\<close> from line 267 until line 432.
\<close>

definition MatchModuleWithPdbFile ::
  "COM \<Rightarrow> string \<Rightarrow> string \<Rightarrow> string \<Rightarrow> event list \<times> (HRESULT \<times> match_out) outcome" where
  "MatchModuleWithPdbFile com ExePath PdbPath Buffer0 =
     (let Hr = CoInitialize com; t0 = [EvCoInitialize] in
      if FAILED Hr
      then Match_Cleanup t0 Exe None None None Hr
             (StringCchPrintfW ''Failed to initialize COM (HRESULT: 0x%lX)'' Hr) False
      else case CoCreateInstance com 0 of (Hr, DiaDataSource) \<Rightarrow>
      let t1 = t0 @ obtained Exe DataSourceIf DiaDataSource in
      if FAILED Hr
      then Match_Cleanup t1 Exe None None DiaDataSource Hr
             (StringCchPrintfW ''Failed to create DIA data source instance. (HRESULT: 0x%lX)'' Hr) False
      else deref DiaDataSource (t1, AccessViolation) (\<lambda>pSource.
      let Hr = loadDataForExe pSource ExePath in
      if FAILED Hr
      then Match_Cleanup t1 Exe None None DiaDataSource Hr
             (StringCchPrintfW ''Failed to load exe file (HRESULT: 0x%lX)'' Hr) False
      else case openSession pSource of (Hr, DiaSession) \<Rightarrow>
      let t2 = t1 @ obtained Exe SessionIf DiaSession in
      if FAILED Hr
      then Match_Cleanup t2 Exe None DiaSession DiaDataSource Hr
             (StringCchPrintfW ''Failed to open DIA Session for exe (HRESULT: 0x%lX)'' Hr) False
      else deref DiaSession (t2, AccessViolation) (\<lambda>pSession.
      case get_globalScope pSession of (Hr, DiaSymbol) \<Rightarrow>
      let t3 = t2 @ obtained Exe SymbolIf DiaSymbol in
      if FAILED Hr
      then Match_Cleanup t3 Exe DiaSymbol DiaSession DiaDataSource Hr
             (StringCchPrintfW ''Failed to get global scope of the exe (HRESULT: 0x%lX)'' Hr) False
      else deref DiaSymbol (t3, AccessViolation) (\<lambda>pSymbol.
      case get_guid pSymbol of (Hr, ExeGuid) \<Rightarrow>
      if FAILED Hr
      then Match_Cleanup t3 Exe DiaSymbol DiaSession DiaDataSource Hr
             (StringCchPrintfW ''Failed to get GUID of the exe (HRESULT: 0x%lX)'' Hr) False
      else case get_signature pSymbol of (Hr, ExeSignature) \<Rightarrow>
      if FAILED Hr
      then Match_Cleanup t3 Exe DiaSymbol DiaSession DiaDataSource Hr
             (StringCchPrintfW ''Failed to get signature of the exe (HRESULT: 0x%lX)'' Hr) False
      else case get_age pSymbol of (Hr, ExeAge) \<Rightarrow>
      if FAILED Hr
      then Match_Cleanup t3 Exe DiaSymbol DiaSession DiaDataSource Hr
             (StringCchPrintfW ''Failed to get age of the exe (HRESULT: 0x%lX)'' Hr) False
      else MatchModuleWithPdbFile_Pdb com PdbPath Buffer0
             (t3 @ [EvRelease Exe SymbolIf, EvRelease Exe SessionIf, EvRelease Exe DataSourceIf])
             ExeGuid ExeSignature ExeAge))))"

section \<open>A debug store and the provider over it\<close>

text \<open>
  Modelled from the spec: the DebugInfoProvider of section 6 (the DIA SDK, which is not
  part of the repository), over an explicit store. A store holds the identity triple of
  its global scope, the function symbols with their address ranges and their two names,
  and the line records with their address ranges (sections 3 and 4.2). The provider finds
  the function symbol whose range contains the address, with the displacement from its
  start, and the line records whose range contains it. A name that a symbol does not carry
  is reported with \<open>S_FALSE\<close>; an enumerator hands out at most as many records as were
  asked for, with \<open>S_FALSE\<close> when fewer were left.
\<close>

record IdentityTriple =
  guid :: GUID
  signature :: DWORD
  age :: DWORD

record FunctionSymbol =
  functionStartAddress :: DWORD
  functionLength :: nat
  undecoratedName :: string
  rawName :: string

record LineRecord =
  lineStartAddress :: DWORD
  lineLength :: nat
  lineNumber :: DWORD
  sourceFileName :: string

record DebugStore =
  identity :: IdentityTriple
  functionSymbols :: "FunctionSymbol list"
  lineRecords :: "LineRecord list"

definition range_contains :: "DWORD \<Rightarrow> nat \<Rightarrow> DWORD \<Rightarrow> bool" where
  "range_contains start len rva = (unat start \<le> unat rva \<and> unat rva < unat start + len)"

definition range_overlaps :: "DWORD \<Rightarrow> nat \<Rightarrow> DWORD \<Rightarrow> DWORD \<Rightarrow> bool" where
  "range_overlaps start len rva n =
     (unat start < unat rva + unat n \<and> unat rva < unat start + len)"

definition provider_name :: "string \<Rightarrow> HRESULT \<times> BSTR" where
  "provider_name s = (if s = [] then (S_FALSE, None) else (S_OK, Some s))"

definition function_symbol :: "FunctionSymbol \<Rightarrow> IDiaSymbol" where
  "function_symbol f =
     \<lparr>get_undecoratedName = provider_name (undecoratedName f),
      get_name = provider_name (rawName f),
      get_guid = (S_FALSE, 0), get_signature = (S_FALSE, 0), get_age = (S_FALSE, 0)\<rparr>"

definition global_symbol :: "DebugStore \<Rightarrow> IDiaSymbol" where
  "global_symbol st =
     \<lparr>get_undecoratedName = (S_FALSE, None), get_name = (S_FALSE, None),
      get_guid = (S_OK, guid (identity st)),
      get_signature = (S_OK, signature (identity st)),
      get_age = (S_OK, age (identity st))\<rparr>"

definition line_number :: "LineRecord \<Rightarrow> IDiaLineNumber" where
  "line_number l =
     \<lparr>get_lineNumber = (S_OK, lineNumber l),
      get_sourceFile = (S_OK, Some \<lparr>get_fileName = (S_OK, Some (sourceFileName l))\<rparr>)\<rparr>"

text \<open>
  Modelled from the spec: the enumerator behind \<open>FindLinesByAddress\<close>, which is part of
  the provider. \<open>celt\<close> is the number of records asked for; the first record handed out is
  the one the code reads.
\<close>

definition enum_Next :: "'a list \<Rightarrow> ULONG \<Rightarrow> HRESULT \<times> 'a option \<times> ULONG" where
  "enum_Next xs celt =
     (let fetched = take (unat celt) xs in
      (if length fetched = unat celt then S_OK else S_FALSE,
       (case fetched of [] \<Rightarrow> None | x # _ \<Rightarrow> Some x),
       of_nat (length fetched)))"

text \<open>
  Modelled from the spec: \<open>FindSymbolByAddress\<close>, \<open>FindLinesByAddress\<close> and
  \<open>GetGlobalIdentity\<close> of the provider, for one open store.
\<close>

definition store_session :: "DebugStore \<Rightarrow> IDiaSession" where
  "store_session st =
     \<lparr>findSymbolByRVAEx = (\<lambda>rva.
        case filter (\<lambda>f. range_contains (functionStartAddress f) (functionLength f) rva)
               (functionSymbols st) of
          [] \<Rightarrow> (S_FALSE, None, 0)
        | f # _ \<Rightarrow> (S_OK, Some (function_symbol f), rva - functionStartAddress f)),
      findLinesByRVA = (\<lambda>rva n.
        (S_OK, Some \<lparr>Next = enum_Next (map line_number
           (filter (\<lambda>l. range_overlaps (lineStartAddress l) (lineLength l) rva n)
              (lineRecords st)))\<rparr>)),
      get_globalScope = (S_OK, Some (global_symbol st))\<rparr>"

text \<open>
  Modelled from the spec: \<open>OpenStore\<close> and \<open>OpenModule\<close> of the provider, for a file
  that loads.
\<close>

definition store_source :: "DebugStore \<Rightarrow> IDiaDataSource" where
  "store_source st =
     \<lparr>loadDataFromPdb = (\<lambda>path. S_OK), loadDataForExe = (\<lambda>path. S_OK),
      openSession = (S_OK, Some (store_session st))\<rparr>"

text \<open>
  The COM runtime in which the first data source created reads \<open>first\<close> and every later
  one reads \<open>second\<close>.
\<close>

definition store_COM :: "DebugStore \<Rightarrow> DebugStore \<Rightarrow> COM" where
  "store_COM first second =
     \<lparr>CoInitialize = S_OK,
      CoCreateInstance = (\<lambda>n. (S_OK, Some (store_source (if n = 0 then first else second))))\<rparr>"

text \<open>
  The identity triple the provider delivers for one file: \<open>created\<close> is the answer of
  \<^verbatim>\<open>CoCreateInstance\<close>, \<open>load\<close> the call that loads the file. It is \<open>None\<close> when one
  of the queries on the way fails or leaves no interface.
\<close>

definition read_identity ::
  "HRESULT \<times> IDiaDataSource option \<Rightarrow> (IDiaDataSource \<Rightarrow> HRESULT) \<Rightarrow> IdentityTriple option" where
  "read_identity created load =
     (case created of (h1, source) \<Rightarrow>
      if FAILED h1 then None
      else deref source None (\<lambda>pSource.
      if FAILED (load pSource) then None
      else case openSession pSource of (h2, session) \<Rightarrow>
      if FAILED h2 then None
      else deref session None (\<lambda>pSession.
      case get_globalScope pSession of (h3, scope) \<Rightarrow>
      if FAILED h3 then None
      else deref scope None (\<lambda>pSymbol.
      if FAILED (fst (get_guid pSymbol)) then None
      else if FAILED (fst (get_signature pSymbol)) then None
      else if FAILED (fst (get_age pSymbol)) then None
      else Some \<lparr>guid = snd (get_guid pSymbol), signature = snd (get_signature pSymbol),
                 age = snd (get_age pSymbol)\<rparr>))))"

section \<open>Reading a recorded run\<close>

fun step :: "(side \<times> interface) list \<Rightarrow> event \<Rightarrow> (side \<times> interface) list" where
  "step H (EvObtain s i) = (s, i) # H"
| "step H (EvRelease s i) = removeAll (s, i) H"
| "step H EvCoInitialize = H"
| "step H EvCoUninitialize = H"

text \<open>The interface pointers held after a run.\<close>

definition handles_held :: "event list \<Rightarrow> (side \<times> interface) list" where
  "handles_held tr = foldl step [] tr"

fun com_step :: "bool \<Rightarrow> event \<Rightarrow> bool" where
  "com_step a EvCoInitialize = True"
| "com_step a EvCoUninitialize = False"
| "com_step a (EvObtain s i) = a"
| "com_step a (EvRelease s i) = a"

text \<open>Whether the COM runtime is initialised after a run.\<close>

definition com_active :: "event list \<Rightarrow> bool" where
  "com_active tr = foldl com_step False tr"

definition one_sided :: "(side \<times> interface) list \<Rightarrow> bool" where
  "one_sided H = (list_all (\<lambda>h. fst h = Exe) H \<or> list_all (\<lambda>h. fst h = Pdb) H)"

text \<open>At no moment of the run is a pointer of the module held together with one of the store.\<close>

fun never_both_from :: "(side \<times> interface) list \<Rightarrow> event list \<Rightarrow> bool" where
  "never_both_from H [] = one_sided H"
| "never_both_from H (e # es) = (one_sided H \<and> never_both_from (step H e) es)"

definition never_both :: "event list \<Rightarrow> bool" where
  "never_both tr = never_both_from [] tr"

text \<open>The run up to the moment the data source of the debug store is created.\<close>

definition before_store_open :: "event list \<Rightarrow> event list" where
  "before_store_open tr = takeWhile (\<lambda>e. e \<noteq> EvObtain Pdb DataSourceIf) tr"

section \<open>Example stores\<close>

definition example_store :: DebugStore where
  "example_store =
     \<lparr>identity = \<lparr>guid = 0x0123456789ABCDEF0123456789ABCDEF, signature = 0x5F3A2B1C, age = 1\<rparr>,
      functionSymbols =
        [\<lparr>functionStartAddress = 0x1000, functionLength = 0x100,
          undecoratedName = '''', rawName = ''main''\<rparr>,
         \<lparr>functionStartAddress = 0x1100, functionLength = 0x80,
          undecoratedName = ''Widget::draw'', rawName = ''?draw@Widget@@QEAAXXZ''\<rparr>,
         \<lparr>functionStartAddress = 0x1180, functionLength = 0x40,
          undecoratedName = '''', rawName = ''''\<rparr>],
      lineRecords =
        [\<lparr>lineStartAddress = 0x1010, lineLength = 8, lineNumber = 42,
          sourceFileName = ''main.c''\<rparr>,
         \<lparr>lineStartAddress = 0x1110, lineLength = 4, lineNumber = 7,
          sourceFileName = ''widget.cpp''\<rparr>,
         \<lparr>lineStartAddress = 0x1112, lineLength = 4, lineNumber = 8,
          sourceFileName = ''widget.cpp''\<rparr>,
         \<lparr>lineStartAddress = 0x1180, lineLength = 0x10, lineNumber = 99,
          sourceFileName = ''anon.c''\<rparr>]\<rparr>"

text \<open>A later build of the same module: only the age differs.\<close>

definition rebuilt_module :: DebugStore where
  "rebuilt_module = example_store\<lparr>identity := (identity example_store)\<lparr>age := 2\<rparr>\<rparr>"

text \<open>A provider whose session answers every query with \<open>E_FAIL\<close>.\<close>

definition failing_lookup_session :: IDiaSession where
  "failing_lookup_session =
     \<lparr>findSymbolByRVAEx = (\<lambda>rva. (E_FAIL, None, 0)),
      findLinesByRVA = (\<lambda>rva n. (E_FAIL, None)),
      get_globalScope = (E_FAIL, None)\<rparr>"

definition failing_lookup_COM :: COM where
  "failing_lookup_COM =
     \<lparr>CoInitialize = S_OK,
      CoCreateInstance = (\<lambda>n. (S_OK, Some
        \<lparr>loadDataFromPdb = (\<lambda>path. S_OK), loadDataForExe = (\<lambda>path. S_OK),
         openSession = (S_OK, Some failing_lookup_session)\<rparr>))\<rparr>"

text \<open>
  The session of the example store, but the symbol found at \<open>0x1012\<close> answers both name
  queries with a status other than \<open>S_OK\<close>.
\<close>

definition unnamed_session :: IDiaSession where
  "unnamed_session = (store_session example_store)\<lparr>findSymbolByRVAEx :=
     (findSymbolByRVAEx (store_session example_store))
       (0x1012 := (S_OK, Some \<lparr>get_undecoratedName = (E_FAIL, Some ''junk''),
                    get_name = (S_FALSE, None), get_guid = (S_FALSE, 0),
                    get_signature = (S_FALSE, 0), get_age = (S_FALSE, 0)\<rparr>, 0x12))\<rparr>"

text \<open>The COM runtime whose data source opens that session.\<close>

definition unnamed_COM :: COM where
  "unnamed_COM =
     \<lparr>CoInitialize = S_OK,
      CoCreateInstance = (\<lambda>n. (S_OK, Some
        ((store_source example_store)\<lparr>openSession := (S_OK, Some unnamed_session)\<rparr>)))\<rparr>"

section \<open>Status codes and strings\<close>

lemma not_FAILED_S_OK [simp]: "\<not> FAILED S_OK"
  by (simp add: FAILED_def S_OK_def)

lemma not_FAILED_S_FALSE [simp]: "\<not> FAILED S_FALSE"
  by (simp add: FAILED_def S_FALSE_def)

lemma FAILED_E_FAIL [simp]: "FAILED E_FAIL"
  by (simp add: FAILED_def E_FAIL_def)

lemma S_FALSE_neq_S_OK [simp]: "S_FALSE \<noteq> S_OK"
  by (simp add: S_FALSE_def S_OK_def)

lemma FAILED_neq_S_OK: "FAILED hr \<Longrightarrow> hr \<noteq> S_OK"
  by auto

lemma SysStringLen_simps [simp]:
  "SysStringLen None = 0" "SysStringLen (Some s) = length s"
  "SysStringLen (SysAllocString s) = length s"
  by (simp_all add: SysStringLen_def SysAllocString_def)

lemma StringCchPrintfW_nonempty:
  "c \<noteq> CHR ''%'' \<Longrightarrow> StringCchPrintfW (c # rest) Hr \<noteq> []"
  by (simp add: StringCchPrintfW_def)

lemma uint_small:
  fixes w :: "32 word"
  assumes "unat w < 2 ^ 31"
  shows "uint w < 2 ^ 31"
proof -
  have "int (unat w) < int (2 ^ 31)" using assms by (rule iffD2 [OF of_nat_less_iff])
  then show ?thesis by simp
qed

lemma sint_small:
  fixes w :: "32 word"
  assumes "unat w < 2 ^ 31"
  shows "sint w = int (unat w)"
proof -
  have a: "uint w < 2 ^ 31" using assms by (rule uint_small)
  have "- (2 ^ 31) \<le> (0::int)" by simp
  also have "0 \<le> uint w" by simp
  finally have b: "- (2 ^ 31) \<le> uint w" .
  have "signed_take_bit 31 (uint w) = uint w"
    using b a by (rule signed_take_bit_int_eq_self)
  then show ?thesis by (simp add: sint_uint)
qed

section \<open>The provider over a store: what the code receives\<close>

lemma range_overlaps_1: "range_overlaps s n rva 1 = range_contains s n rva"
  by (auto simp: range_overlaps_def range_contains_def)

lemma displacement_in_range:
  assumes "range_contains s n rva" and "n \<le> 2 ^ 31"
  shows "sint (rva - s) = int (unat rva) - int (unat s)"
proof -
  from assms(1) have le: "unat s \<le> unat rva" and lt: "unat rva < unat s + n"
    by (simp_all add: range_contains_def)
  from le have "s \<le> rva" by (simp add: word_le_nat_alt)
  then have u: "unat (rva - s) = unat rva - unat s" by (rule unat_sub)
  from lt le have "unat rva - unat s < n" by linarith
  then have "unat rva - unat s < 2 ^ 31" using assms(2) by (rule less_le_trans)
  with u have "unat (rva - s) < 2 ^ 31" by simp
  then have "sint (rva - s) = int (unat (rva - s))" by (rule sint_small)
  with u le show ?thesis by simp
qed

lemma filter_Cons_mem:
  assumes "filter P xs = x # ys"
  shows "P x"
proof -
  have "x \<in> set (filter P xs)" using assms by simp
  then show ?thesis by simp
qed

lemma function_symbol_name:
  "GetFunctionName (function_symbol f) =
     Some (if undecoratedName f \<noteq> [] then undecoratedName f
           else if rawName f \<noteq> [] then rawName f else ''(None)'')"
  by (simp add: GetFunctionName_def function_symbol_def provider_name_def SysAllocString_def)

lemma enum_Next_one: "enum_Next [x] 1 = (S_OK, Some x, 1)"
  by (simp add: enum_Next_def)

lemma enum_Next_none: "enum_Next [] 1 = (S_FALSE, None, 0)"
  by (simp add: enum_Next_def)

lemma enum_Next_many: "enum_Next (x # y # ys) 1 = (S_OK, Some x, 1)"
  by (simp add: enum_Next_def)

lemma store_findSymbol:
  assumes "filter (\<lambda>f. range_contains (functionStartAddress f) (functionLength f) rva)
             (functionSymbols st) = f # fs"
  shows "findSymbolByRVAEx (store_session st) rva =
           (S_OK, Some (function_symbol f), rva - functionStartAddress f)"
  by (simp add: store_session_def assms)

lemma store_findSymbol_none:
  assumes "filter (\<lambda>f. range_contains (functionStartAddress f) (functionLength f) rva)
             (functionSymbols st) = []"
  shows "findSymbolByRVAEx (store_session st) rva = (S_FALSE, None, 0)"
  by (simp add: store_session_def assms)

lemma store_findLines:
  "findLinesByRVA (store_session st) rva 1 =
     (S_OK, Some \<lparr>Next = enum_Next (map line_number
        (filter (\<lambda>l. range_contains (lineStartAddress l) (lineLength l) rva) (lineRecords st)))\<rparr>)"
  by (simp add: store_session_def range_overlaps_1)

lemma Internal_store_one:
  assumes fn: "filter (\<lambda>f. range_contains (functionStartAddress f) (functionLength f) rva)
                 (functionSymbols st) = f # fs"
      and ln: "filter (\<lambda>l. range_contains (lineStartAddress l) (lineLength l) rva)
                 (lineRecords st) = [l]"
  shows "ResolveStackFrameSymbolsInternal (store_session st) rva b out =
     Internal_Exit S_OK b
       (out\<lparr>FileNameOut := Some (sourceFileName l), LineNumberOut := lineNumber l,
            FunctionNameOut := GetFunctionName (function_symbol f),
            DisplacementOut := rva - functionStartAddress f\<rparr>)"
  unfolding ResolveStackFrameSymbolsInternal_def
  apply (simp only: store_findSymbol [OF fn] store_findLines ln)
  apply (simp add: enum_Next_one deref_def line_number_def)
  done

lemma Internal_store_none:
  assumes fn: "filter (\<lambda>f. range_contains (functionStartAddress f) (functionLength f) rva)
                 (functionSymbols st) = f # fs"
      and ln: "filter (\<lambda>l. range_contains (lineStartAddress l) (lineLength l) rva)
                 (lineRecords st) = []"
  shows "ResolveStackFrameSymbolsInternal (store_session st) rva b out =
     Internal_Exit S_FALSE
       (StringCchPrintfW ''Failed to enumerate line number (HRESULT: 0x%lX)'' S_FALSE) out"
  unfolding ResolveStackFrameSymbolsInternal_def
  apply (simp only: store_findSymbol [OF fn] store_findLines ln)
  apply (simp add: enum_Next_none deref_def)
  done

lemma Internal_store_many:
  assumes fn: "filter (\<lambda>f. range_contains (functionStartAddress f) (functionLength f) rva)
                 (functionSymbols st) = f # fs"
      and ln: "filter (\<lambda>l. range_contains (lineStartAddress l) (lineLength l) rva)
                 (lineRecords st) = l # l' # ls"
  shows "ResolveStackFrameSymbolsInternal (store_session st) rva b out =
     Internal_Exit S_OK b
       (out\<lparr>FileNameOut := Some (sourceFileName l), LineNumberOut := lineNumber l,
            FunctionNameOut := GetFunctionName (function_symbol f),
            DisplacementOut := rva - functionStartAddress f\<rparr>)"
  unfolding ResolveStackFrameSymbolsInternal_def
  apply (simp only: store_findSymbol [OF fn] store_findLines ln)
  apply (simp add: enum_Next_many deref_def line_number_def)
  done

lemma store_COM_answers:
  "CoInitialize (store_COM m s) = S_OK"
  "CoCreateInstance (store_COM m s) 0 = (S_OK, Some (store_source m))"
  "CoCreateInstance (store_COM m s) (Suc 0) = (S_OK, Some (store_source s))"
  "CoCreateInstance (store_COM m s) 1 = (S_OK, Some (store_source s))"
  by (simp_all add: store_COM_def)

lemma store_source_answers:
  "loadDataForExe (store_source m) path = S_OK"
  "loadDataFromPdb (store_source m) path = S_OK"
  "openSession (store_source m) = (S_OK, Some (store_session m))"
  by (simp_all add: store_source_def)

lemma store_global_answers:
  "get_globalScope (store_session m) = (S_OK, Some (global_symbol m))"
  "get_guid (global_symbol m) = (S_OK, guid (identity m))"
  "get_signature (global_symbol m) = (S_OK, signature (identity m))"
  "get_age (global_symbol m) = (S_OK, age (identity m))"
  by (simp_all add: store_session_def global_symbol_def)

lemma Resolve_store:
  "ResolveStackFrameSymbols (store_COM st st') path rva b1 b2 =
     (case ResolveStackFrameSymbolsInternal (store_session st) rva b2
             \<lparr>ErrorMessageOut = None, FileNameOut = None, LineNumberOut = 0,
              FunctionNameOut = None, DisplacementOut = 0\<rparr> of
        AccessViolation \<Rightarrow> AccessViolation
      | Returns (Hr, out') \<Rightarrow> Resolve_Cleanup Hr b1 out')"
  by (simp add: ResolveStackFrameSymbols_def store_COM_def store_source_def deref_def)

section \<open>Address resolution on a store\<close>

text \<open>
  C1. For every debug store and every RVA that lies in the address range of exactly one
  function symbol and is covered by exactly one line record, \<open>ResolveStackFrameSymbols\<close>
  returns \<open>S_OK\<close> with the displacement \<open>rva - functionStartAddress\<close>, a function name
  that is not empty, and the source file name and line number of that line record. The
  displacement is a \<^verbatim>\<open>LONG\<close>: the difference is taken in 32 bits, and it is the difference
  of the two addresses as integers when the function is at most \<open>2 ^ 31\<close> bytes long.
\<close>

theorem resolve_unique_function_and_line:
  assumes fn: "filter (\<lambda>f. range_contains (functionStartAddress f) (functionLength f) rva)
                 (functionSymbols st) = [f]"
      and ln: "filter (\<lambda>l. range_contains (lineStartAddress l) (lineLength l) rva)
                 (lineRecords st) = [l]"
  shows "ResolveStackFrameSymbols (store_COM st st') PdbFilePath rva Buffer0 InnerBuffer0 =
           Returns (S_OK,
             \<lparr>ErrorMessageOut = SysAllocString Buffer0,
              FileNameOut = Some (sourceFileName l),
              LineNumberOut = lineNumber l,
              FunctionNameOut = GetFunctionName (function_symbol f),
              DisplacementOut = rva - functionStartAddress f\<rparr>)
         \<and> SysStringLen (GetFunctionName (function_symbol f)) \<noteq> 0
         \<and> (functionLength f \<le> 2 ^ 31 \<longrightarrow>
              sint (rva - functionStartAddress f) = int (unat rva) - int (unat (functionStartAddress f)))"
proof -
  have "range_contains (functionStartAddress f) (functionLength f) rva"
    using fn by (rule filter_Cons_mem)
  then have d: "functionLength f \<le> 2 ^ 31 \<longrightarrow>
      sint (rva - functionStartAddress f) = int (unat rva) - int (unat (functionStartAddress f))"
    by (simp add: displacement_in_range)
  have n: "SysStringLen (GetFunctionName (function_symbol f)) \<noteq> 0"
    by (simp add: GetFunctionName_def)
  have r: "ResolveStackFrameSymbols (store_COM st st') PdbFilePath rva Buffer0 InnerBuffer0 =
           Returns (S_OK,
             \<lparr>ErrorMessageOut = SysAllocString Buffer0,
              FileNameOut = Some (sourceFileName l),
              LineNumberOut = lineNumber l,
              FunctionNameOut = GetFunctionName (function_symbol f),
              DisplacementOut = rva - functionStartAddress f\<rparr>)"
    by (simp add: Resolve_store Internal_store_one [OF fn ln] Internal_Exit_def Resolve_Cleanup_def)
  from r n d show ?thesis by blast
qed

lemma example_functions_0x1012:
  "filter (\<lambda>f. range_contains (functionStartAddress f) (functionLength f) 0x1012)
     (functionSymbols example_store) =
   [\<lparr>functionStartAddress = 0x1000, functionLength = 0x100,
     undecoratedName = '''', rawName = ''main''\<rparr>]"
  by (simp add: example_store_def range_contains_def)

lemma example_lines_0x1012:
  "filter (\<lambda>l. range_contains (lineStartAddress l) (lineLength l) 0x1012)
     (lineRecords example_store) =
   [\<lparr>lineStartAddress = 0x1010, lineLength = 8, lineNumber = 42, sourceFileName = ''main.c''\<rparr>]"
  by (simp add: example_store_def range_contains_def)

theorem resolve_unique_function_and_line_witness:
  "ResolveStackFrameSymbols (store_COM example_store example_store) ''app.pdb'' 0x1012 ''stale'' ''junk'' =
     Returns (S_OK,
       \<lparr>ErrorMessageOut = Some ''stale'', FileNameOut = Some ''main.c'', LineNumberOut = 42,
        FunctionNameOut = Some ''main'', DisplacementOut = 0x12\<rparr>)
   \<and> sint (0x1012 - 0x1000 :: 32 word) = 0x12"
  using resolve_unique_function_and_line [OF example_functions_0x1012 example_lines_0x1012,
    of example_store "''app.pdb''" "''stale''" "''junk''"]
  by (simp add: function_symbol_name SysAllocString_def)

section \<open>The function name\<close>

lemma E_FAIL_neq_S_OK [simp]: "E_FAIL \<noteq> S_OK"
  by (simp add: E_FAIL_def S_OK_def)

lemma GetFunctionName_nonempty: "SysStringLen (GetFunctionName Symbol) \<noteq> 0"
  by (simp add: GetFunctionName_def)

lemma GetFunctionName_fallback:
  "GetFunctionName Symbol =
     (if fst (get_undecoratedName Symbol) = S_OK \<and> SysStringLen (snd (get_undecoratedName Symbol)) \<noteq> 0
      then snd (get_undecoratedName Symbol)
      else if fst (get_name Symbol) = S_OK \<and> SysStringLen (snd (get_name Symbol)) \<noteq> 0
      then snd (get_name Symbol)
      else Some ''(None)'')"
  by (simp add: GetFunctionName_def SysAllocString_def)

lemma Internal_resolves:
  assumes "findSymbolByRVAEx Session Rva = (h3, Some Symbol, d)" "\<not> FAILED h3"
      and "findLinesByRVA Session Rva 1 = (h4, Some pEnum)" "\<not> FAILED h4"
      and "Next pEnum 1 = (h5, Some pLine, 1)" "\<not> FAILED h5"
      and "get_lineNumber pLine = (h6, n)" "\<not> FAILED h6"
      and "get_sourceFile pLine = (h7, Some pFile)" "\<not> FAILED h7"
      and "get_fileName pFile = (h8, fname)" "\<not> FAILED h8"
  shows "ResolveStackFrameSymbolsInternal Session Rva b out =
           Returns (S_OK, out\<lparr>ErrorMessageOut := SysAllocString b, FileNameOut := fname,
             LineNumberOut := n, FunctionNameOut := GetFunctionName Symbol,
             DisplacementOut := d\<rparr>)"
  unfolding ResolveStackFrameSymbolsInternal_def
  by (simp add: assms deref_def Let_def Internal_Exit_def)

lemma Resolve_enters_Internal:
  assumes "\<not> FAILED (CoInitialize com)"
      and "CoCreateInstance com 0 = (h1, Some pSource)" "\<not> FAILED h1"
      and "\<not> FAILED (loadDataFromPdb pSource PdbFilePath)"
      and "openSession pSource = (h2, Some pSession)" "\<not> FAILED h2"
  shows "ResolveStackFrameSymbols com PdbFilePath Rva b1 b2 =
           (case ResolveStackFrameSymbolsInternal pSession Rva b2
                   \<lparr>ErrorMessageOut = None, FileNameOut = None, LineNumberOut = 0,
                    FunctionNameOut = None, DisplacementOut = 0\<rparr> of
              AccessViolation \<Rightarrow> AccessViolation
            | Returns (Hr, out') \<Rightarrow> Resolve_Cleanup Hr b1 out')"
  unfolding ResolveStackFrameSymbols_def
  by (simp add: assms deref_def Let_def)

lemma Resolve_resolves:
  assumes "\<not> FAILED (CoInitialize com)"
      and "CoCreateInstance com 0 = (h1, Some pSource)" "\<not> FAILED h1"
      and "\<not> FAILED (loadDataFromPdb pSource PdbFilePath)"
      and "openSession pSource = (h2, Some pSession)" "\<not> FAILED h2"
      and "findSymbolByRVAEx pSession Rva = (h3, Some Symbol, d)" "\<not> FAILED h3"
      and "findLinesByRVA pSession Rva 1 = (h4, Some pEnum)" "\<not> FAILED h4"
      and "Next pEnum 1 = (h5, Some pLine, 1)" "\<not> FAILED h5"
      and "get_lineNumber pLine = (h6, n)" "\<not> FAILED h6"
      and "get_sourceFile pLine = (h7, Some pFile)" "\<not> FAILED h7"
      and "get_fileName pFile = (h8, fname)" "\<not> FAILED h8"
  shows "ResolveStackFrameSymbols com PdbFilePath Rva b1 b2 =
           Returns (S_OK, \<lparr>ErrorMessageOut = SysAllocString b1, FileNameOut = fname,
             LineNumberOut = n, FunctionNameOut = GetFunctionName Symbol,
             DisplacementOut = d\<rparr>)"
  by (simp add: Resolve_enters_Internal [OF assms(1-6)] Internal_resolves [OF assms(7-18)]
        Resolve_Cleanup_def)

lemma Internal_name_of_symbol_found:
  assumes "findSymbolByRVAEx Session Rva = (h3, Some Symbol, d)"
      and "ResolveStackFrameSymbolsInternal Session Rva b out = Returns (hr, out')"
  shows "FunctionNameOut out' = FunctionNameOut out \<or>
         hr = S_OK \<and> FunctionNameOut out' = GetFunctionName Symbol"
  using assms
  by (auto simp: ResolveStackFrameSymbolsInternal_def Internal_Exit_def deref_def Let_def
           split: prod.splits option.splits if_splits)

lemma Resolve_name_of_symbol_found:
  assumes "\<not> FAILED (CoInitialize com)"
      and "CoCreateInstance com 0 = (h1, Some pSource)" "\<not> FAILED h1"
      and "\<not> FAILED (loadDataFromPdb pSource PdbFilePath)"
      and "openSession pSource = (h2, Some pSession)" "\<not> FAILED h2"
      and "findSymbolByRVAEx pSession Rva = (h3, Some Symbol, d)"
      and "ResolveStackFrameSymbols com PdbFilePath Rva b1 b2 = Returns (hr, out)"
  shows "FunctionNameOut out = None \<or>
         hr = S_OK \<and> FunctionNameOut out = GetFunctionName Symbol"
proof (cases "ResolveStackFrameSymbolsInternal pSession Rva b2
                \<lparr>ErrorMessageOut = None, FileNameOut = None, LineNumberOut = 0,
                 FunctionNameOut = None, DisplacementOut = 0\<rparr>")
  case AccessViolation
  with assms(8) show ?thesis
    by (simp add: Resolve_enters_Internal [OF assms(1-6)])
next
  case (Returns r)
  obtain hr' out' where r: "r = (hr', out')" by (cases r)
  from assms(8) Returns r have e: "hr = hr'" "out = out'\<lparr>ErrorMessageOut := SysAllocString b1\<rparr>"
    by (simp_all add: Resolve_enters_Internal [OF assms(1-6)] Resolve_Cleanup_def)
  from Returns r have "FunctionNameOut out' = None \<or>
      hr' = S_OK \<and> FunctionNameOut out' = GetFunctionName Symbol"
    using Internal_name_of_symbol_found [OF assms(7), of b2
      "\<lparr>ErrorMessageOut = None, FileNameOut = None, LineNumberOut = 0,
        FunctionNameOut = None, DisplacementOut = 0\<rparr>" hr' out']
    by simp
  with e show ?thesis by simp
qed

lemma Resolve_store_name:
  assumes fn: "filter (\<lambda>f. range_contains (functionStartAddress f) (functionLength f) rva)
                 (functionSymbols st) = f # fs"
      and ln: "filter (\<lambda>l. range_contains (lineStartAddress l) (lineLength l) rva)
                 (lineRecords st) = [l]"
  shows "ResolveStackFrameSymbols (store_COM st st') path rva b1 b2 =
           Returns (S_OK,
             \<lparr>ErrorMessageOut = SysAllocString b1, FileNameOut = Some (sourceFileName l),
              LineNumberOut = lineNumber l,
              FunctionNameOut = Some (if undecoratedName f \<noteq> [] then undecoratedName f
                                      else if rawName f \<noteq> [] then rawName f else ''(None)''),
              DisplacementOut = rva - functionStartAddress f\<rparr>)"
  by (simp add: Resolve_store Internal_store_one [OF fn ln] Internal_Exit_def Resolve_Cleanup_def
        function_symbol_name)

lemma example_functions_0x1110:
  "filter (\<lambda>f. range_contains (functionStartAddress f) (functionLength f) 0x1110)
     (functionSymbols example_store) =
   [\<lparr>functionStartAddress = 0x1100, functionLength = 0x80,
     undecoratedName = ''Widget::draw'', rawName = ''?draw@Widget@@QEAAXXZ''\<rparr>]"
  by (simp add: example_store_def range_contains_def)

lemma example_lines_0x1110:
  "filter (\<lambda>l. range_contains (lineStartAddress l) (lineLength l) 0x1110)
     (lineRecords example_store) =
   [\<lparr>lineStartAddress = 0x1110, lineLength = 4, lineNumber = 7, sourceFileName = ''widget.cpp''\<rparr>]"
  by (simp add: example_store_def range_contains_def)

lemma example_functions_0x1184:
  "filter (\<lambda>f. range_contains (functionStartAddress f) (functionLength f) 0x1184)
     (functionSymbols example_store) =
   [\<lparr>functionStartAddress = 0x1180, functionLength = 0x40,
     undecoratedName = '''', rawName = ''''\<rparr>]"
  by (simp add: example_store_def range_contains_def)

lemma example_lines_0x1184:
  "filter (\<lambda>l. range_contains (lineStartAddress l) (lineLength l) 0x1184)
     (lineRecords example_store) =
   [\<lparr>lineStartAddress = 0x1180, lineLength = 0x10, lineNumber = 99, sourceFileName = ''anon.c''\<rparr>]"
  by (simp add: example_store_def range_contains_def)

text \<open>
  C7. For a symbol the lookup has found, the function name is the undecorated name when
  that query answers \<open>S_OK\<close> with a name that is not empty; otherwise the raw name, under
  the same condition; otherwise the literal \<open>(None)\<close>. When the line record and its source
  file resolve as well, \<open>ResolveStackFrameSymbols\<close> returns \<open>S_OK\<close> with exactly this
  name; whenever it returns a function name at all, it is this name of the symbol found,
  with \<open>S_OK\<close>; and the name is neither \<^verbatim>\<open>NULL\<close> nor the empty string. On a store:
  the call returns the undecorated name of the function when it is not empty, otherwise its
  raw name when that is not empty, otherwise \<open>(None)\<close>.
\<close>

theorem function_name_fallback_order:
  assumes name: "name =
     (if fst (get_undecoratedName Symbol) = S_OK \<and> SysStringLen (snd (get_undecoratedName Symbol)) \<noteq> 0
      then snd (get_undecoratedName Symbol)
      else if fst (get_name Symbol) = S_OK \<and> SysStringLen (snd (get_name Symbol)) \<noteq> 0
      then snd (get_name Symbol)
      else Some ''(None)'')"
  shows "(\<not> FAILED (CoInitialize com) \<and>
          CoCreateInstance com 0 = (h1, Some pSource) \<and> \<not> FAILED h1 \<and>
          \<not> FAILED (loadDataFromPdb pSource PdbFilePath) \<and>
          openSession pSource = (h2, Some pSession) \<and> \<not> FAILED h2 \<and>
          findSymbolByRVAEx pSession Rva = (h3, Some Symbol, Displacement) \<and> \<not> FAILED h3 \<longrightarrow>
            (findLinesByRVA pSession Rva 1 = (h4, Some pEnum) \<and> \<not> FAILED h4 \<and>
             Next pEnum 1 = (h5, Some pLine, 1) \<and> \<not> FAILED h5 \<and>
             get_lineNumber pLine = (h6, LineNumber) \<and> \<not> FAILED h6 \<and>
             get_sourceFile pLine = (h7, Some pFile) \<and> \<not> FAILED h7 \<and>
             get_fileName pFile = (h8, FileName) \<and> \<not> FAILED h8 \<longrightarrow>
               ResolveStackFrameSymbols com PdbFilePath Rva Buffer0 InnerBuffer0 =
                 Returns (S_OK, \<lparr>ErrorMessageOut = SysAllocString Buffer0, FileNameOut = FileName,
                   LineNumberOut = LineNumber, FunctionNameOut = name,
                   DisplacementOut = Displacement\<rparr>)) \<and>
            (ResolveStackFrameSymbols com PdbFilePath Rva Buffer0 InnerBuffer0 = Returns (hr, out) \<longrightarrow>
               FunctionNameOut out = None \<or> hr = S_OK \<and> FunctionNameOut out = name))
       \<and> name \<noteq> None \<and> name \<noteq> Some []
       \<and> (filter (\<lambda>f. range_contains (functionStartAddress f) (functionLength f) rva)
             (functionSymbols st) = f # fs \<and>
           filter (\<lambda>l. range_contains (lineStartAddress l) (lineLength l) rva)
             (lineRecords st) = [l] \<longrightarrow>
             ResolveStackFrameSymbols (store_COM st st') path rva c1 c2 =
               Returns (S_OK,
                 \<lparr>ErrorMessageOut = SysAllocString c1, FileNameOut = Some (sourceFileName l),
                  LineNumberOut = lineNumber l,
                  FunctionNameOut = Some (if undecoratedName f \<noteq> [] then undecoratedName f
                                          else if rawName f \<noteq> [] then rawName f else ''(None)''),
                  DisplacementOut = rva - functionStartAddress f\<rparr>))"
proof -
  have n: "name = GetFunctionName Symbol"
    unfolding name by (rule GetFunctionName_fallback [symmetric])
  have a: "ResolveStackFrameSymbols com PdbFilePath Rva Buffer0 InnerBuffer0 =
             Returns (S_OK, \<lparr>ErrorMessageOut = SysAllocString Buffer0, FileNameOut = FileName,
               LineNumberOut = LineNumber, FunctionNameOut = name,
               DisplacementOut = Displacement\<rparr>)"
    if "\<not> FAILED (CoInitialize com)"
      "CoCreateInstance com 0 = (h1, Some pSource)" "\<not> FAILED h1"
      "\<not> FAILED (loadDataFromPdb pSource PdbFilePath)"
      "openSession pSource = (h2, Some pSession)" "\<not> FAILED h2"
      "findSymbolByRVAEx pSession Rva = (h3, Some Symbol, Displacement)" "\<not> FAILED h3"
      "findLinesByRVA pSession Rva 1 = (h4, Some pEnum)" "\<not> FAILED h4"
      "Next pEnum 1 = (h5, Some pLine, 1)" "\<not> FAILED h5"
      "get_lineNumber pLine = (h6, LineNumber)" "\<not> FAILED h6"
      "get_sourceFile pLine = (h7, Some pFile)" "\<not> FAILED h7"
      "get_fileName pFile = (h8, FileName)" "\<not> FAILED h8"
    unfolding n using that by (rule Resolve_resolves)
  have b: "FunctionNameOut out = None \<or> hr = S_OK \<and> FunctionNameOut out = name"
    if "\<not> FAILED (CoInitialize com)"
      "CoCreateInstance com 0 = (h1, Some pSource)" "\<not> FAILED h1"
      "\<not> FAILED (loadDataFromPdb pSource PdbFilePath)"
      "openSession pSource = (h2, Some pSession)" "\<not> FAILED h2"
      "findSymbolByRVAEx pSession Rva = (h3, Some Symbol, Displacement)"
      "ResolveStackFrameSymbols com PdbFilePath Rva Buffer0 InnerBuffer0 = Returns (hr, out)"
    unfolding n using that by (rule Resolve_name_of_symbol_found)
  have c: "name \<noteq> None \<and> name \<noteq> Some []"
    using GetFunctionName_nonempty [of Symbol] unfolding n [symmetric]
    by (cases name) auto
  have d: "ResolveStackFrameSymbols (store_COM st st') path rva c1 c2 =
               Returns (S_OK,
                 \<lparr>ErrorMessageOut = SysAllocString c1, FileNameOut = Some (sourceFileName l),
                  LineNumberOut = lineNumber l,
                  FunctionNameOut = Some (if undecoratedName f \<noteq> [] then undecoratedName f
                                          else if rawName f \<noteq> [] then rawName f else ''(None)''),
                  DisplacementOut = rva - functionStartAddress f\<rparr>)"
    if "filter (\<lambda>f. range_contains (functionStartAddress f) (functionLength f) rva)
             (functionSymbols st) = f # fs"
       "filter (\<lambda>l. range_contains (lineStartAddress l) (lineLength l) rva)
             (lineRecords st) = [l]"
    using that by (rule Resolve_store_name)
  from a b c d show ?thesis by blast
qed

theorem function_name_fallback_order_witness:
  "ResolveStackFrameSymbols (store_COM example_store example_store) ''app.pdb'' 0x1110 [] [] =
     Returns (S_OK, \<lparr>ErrorMessageOut = Some [], FileNameOut = Some ''widget.cpp'',
        LineNumberOut = 7, FunctionNameOut = Some ''Widget::draw'', DisplacementOut = 0x10\<rparr>)
   \<and> ResolveStackFrameSymbols (store_COM example_store example_store) ''app.pdb'' 0x1012 [] [] =
     Returns (S_OK, \<lparr>ErrorMessageOut = Some [], FileNameOut = Some ''main.c'',
        LineNumberOut = 42, FunctionNameOut = Some ''main'', DisplacementOut = 0x12\<rparr>)
   \<and> ResolveStackFrameSymbols (store_COM example_store example_store) ''app.pdb'' 0x1184 [] [] =
     Returns (S_OK, \<lparr>ErrorMessageOut = Some [], FileNameOut = Some ''anon.c'',
        LineNumberOut = 99, FunctionNameOut = Some ''(None)'', DisplacementOut = 4\<rparr>)"
  using
    function_name_fallback_order [where rva = "0x1110" and st = example_store
        and st' = example_store and path = "''app.pdb''" and ?c1.0 = "[]" and ?c2.0 = "[]",
      OF refl, THEN conjunct2, THEN conjunct2, THEN conjunct2]
    function_name_fallback_order [where rva = "0x1012" and st = example_store
        and st' = example_store and path = "''app.pdb''" and ?c1.0 = "[]" and ?c2.0 = "[]",
      OF refl, THEN conjunct2, THEN conjunct2, THEN conjunct2]
    function_name_fallback_order [where rva = "0x1184" and st = example_store
        and st' = example_store and path = "''app.pdb''" and ?c1.0 = "[]" and ?c2.0 = "[]",
      OF refl, THEN conjunct2, THEN conjunct2, THEN conjunct2]
  by (simp add: example_functions_0x1110 example_lines_0x1110 example_functions_0x1012
        example_lines_0x1012 example_functions_0x1184 example_lines_0x1184 SysAllocString_def)

section \<open>Name queries that fail\<close>

lemma GetFunctionName_failed_undecorated:
  "fst (get_undecoratedName Symbol) \<noteq> S_OK \<Longrightarrow>
   GetFunctionName Symbol = GetFunctionName (Symbol\<lparr>get_undecoratedName := (S_OK, SysAllocString [])\<rparr>)"
  by (simp add: GetFunctionName_def)

lemma GetFunctionName_failed_name:
  "fst (get_name Symbol) \<noteq> S_OK \<Longrightarrow>
   GetFunctionName Symbol = GetFunctionName (Symbol\<lparr>get_name := (S_OK, SysAllocString [])\<rparr>)"
  by (simp add: GetFunctionName_def)

lemma Internal_depends_on_name_only:
  assumes "findSymbolByRVAEx Session Rva = (Hr, Some Symbol, Displacement)"
      and "GetFunctionName Symbol' = GetFunctionName Symbol"
  shows "ResolveStackFrameSymbolsInternal
           (Session\<lparr>findSymbolByRVAEx := (findSymbolByRVAEx Session)
              (Rva := (Hr, Some Symbol', Displacement))\<rparr>) Rva b out =
         ResolveStackFrameSymbolsInternal Session Rva b out"
  using assms
  by (simp add: ResolveStackFrameSymbolsInternal_def deref_def Let_def
        cong: if_cong option.case_cong prod.case_cong)

lemma Internal_status_ignores_names:
  assumes "findSymbolByRVAEx Session Rva = (h, Some Symbol, d)"
  shows "map_outcome (\<lambda>(hr, out). (hr, out\<lparr>FunctionNameOut := None\<rparr>))
           (ResolveStackFrameSymbolsInternal
              (Session\<lparr>findSymbolByRVAEx := (findSymbolByRVAEx Session)
                 (Rva := (h, Some (Symbol\<lparr>get_undecoratedName := a, get_name := c\<rparr>), d))\<rparr>)
              Rva b out) =
         map_outcome (\<lambda>(hr, out). (hr, out\<lparr>FunctionNameOut := None\<rparr>))
           (ResolveStackFrameSymbolsInternal Session Rva b out)"
  using assms
  by (auto simp: ResolveStackFrameSymbolsInternal_def Internal_Exit_def deref_def Let_def
           split: prod.splits option.splits if_splits)

lemma unnamed_session_findSymbol:
  "findSymbolByRVAEx unnamed_session 0x1012 =
     (S_OK, Some \<lparr>get_undecoratedName = (E_FAIL, Some ''junk''),
                    get_name = (S_FALSE, None), get_guid = (S_FALSE, 0),
                    get_signature = (S_FALSE, 0), get_age = (S_FALSE, 0)\<rparr>, 0x12)"
  by (simp add: unnamed_session_def)

lemma unnamed_COM_answers:
  "CoInitialize unnamed_COM = S_OK"
  "CoCreateInstance unnamed_COM 0 =
     (S_OK, Some ((store_source example_store)\<lparr>openSession := (S_OK, Some unnamed_session)\<rparr>))"
  "loadDataFromPdb ((store_source example_store)\<lparr>openSession := (S_OK, Some unnamed_session)\<rparr>)
     path = S_OK"
  "openSession ((store_source example_store)\<lparr>openSession := (S_OK, Some unnamed_session)\<rparr>) =
     (S_OK, Some unnamed_session)"
  by (simp_all add: unnamed_COM_def store_source_def)

lemma unnamed_session_findLines:
  "findLinesByRVA unnamed_session 0x1012 1 =
     (S_OK, Some \<lparr>Next = enum_Next [line_number
        \<lparr>lineStartAddress = 0x1010, lineLength = 8, lineNumber = 42,
         sourceFileName = ''main.c''\<rparr>]\<rparr>)"
  by (simp add: unnamed_session_def store_findLines example_lines_0x1012)

lemma example_findLines_0x1012:
  "findLinesByRVA (store_session example_store) 0x1012 1 =
     (S_OK, Some \<lparr>Next = enum_Next [line_number
        \<lparr>lineStartAddress = 0x1010, lineLength = 8, lineNumber = 42,
         sourceFileName = ''main.c''\<rparr>]\<rparr>)"
  by (simp add: store_findLines example_lines_0x1012)

lemma line_number_answers:
  "get_lineNumber (line_number l) = (S_OK, lineNumber l)"
  "get_sourceFile (line_number l) = (S_OK, Some \<lparr>get_fileName = (S_OK, Some (sourceFileName l))\<rparr>)"
  by (simp_all add: line_number_def)

text \<open>
  C10. A name query that answers anything but \<open>S_OK\<close> does not fail the resolution. When
  the symbol lookup, the line record and its source file resolve and the undecorated-name
  query fails, \<open>ResolveStackFrameSymbols\<close> returns \<open>S_OK\<close> with the raw name if that
  query answers \<open>S_OK\<close> with a name that is not empty, and with \<open>(None)\<close> otherwise; when
  the raw-name query fails after an undecorated name that failed or is empty, it returns
  \<open>S_OK\<close> with \<open>(None)\<close>. In every run, whatever the two name queries answer, the
  status, the diagnostic, the file name, the line number and the displacement are the
  same; and the run with a failed name query is, result for result, the run in which that
  query had answered \<open>S_OK\<close> with an empty name.
\<close>

theorem failed_name_query_advances_fallback:
  "(\<not> FAILED (CoInitialize com) \<and>
    CoCreateInstance com 0 = (h1, Some pSource) \<and> \<not> FAILED h1 \<and>
    \<not> FAILED (loadDataFromPdb pSource PdbFilePath) \<and>
    openSession pSource = (h2, Some pSession) \<and> \<not> FAILED h2 \<and>
    findSymbolByRVAEx pSession Rva = (h3, Some Symbol, Displacement) \<and> \<not> FAILED h3 \<and>
    findLinesByRVA pSession Rva 1 = (h4, Some pEnum) \<and> \<not> FAILED h4 \<and>
    Next pEnum 1 = (h5, Some pLine, 1) \<and> \<not> FAILED h5 \<and>
    get_lineNumber pLine = (h6, LineNumber) \<and> \<not> FAILED h6 \<and>
    get_sourceFile pLine = (h7, Some pFile) \<and> \<not> FAILED h7 \<and>
    get_fileName pFile = (h8, FileName) \<and> \<not> FAILED h8 \<longrightarrow>
      (fst (get_undecoratedName Symbol) \<noteq> S_OK \<longrightarrow>
         ResolveStackFrameSymbols com PdbFilePath Rva Buffer0 InnerBuffer0 =
           Returns (S_OK, \<lparr>ErrorMessageOut = SysAllocString Buffer0, FileNameOut = FileName,
             LineNumberOut = LineNumber,
             FunctionNameOut =
               (if fst (get_name Symbol) = S_OK \<and> SysStringLen (snd (get_name Symbol)) \<noteq> 0
                then snd (get_name Symbol) else Some ''(None)''),
             DisplacementOut = Displacement\<rparr>)) \<and>
      ((fst (get_undecoratedName Symbol) \<noteq> S_OK
          \<or> SysStringLen (snd (get_undecoratedName Symbol)) = 0) \<and>
       fst (get_name Symbol) \<noteq> S_OK \<longrightarrow>
         ResolveStackFrameSymbols com PdbFilePath Rva Buffer0 InnerBuffer0 =
           Returns (S_OK, \<lparr>ErrorMessageOut = SysAllocString Buffer0, FileNameOut = FileName,
             LineNumberOut = LineNumber, FunctionNameOut = Some ''(None)'',
             DisplacementOut = Displacement\<rparr>)))
   \<and> (findSymbolByRVAEx Session Rva' = (h, Some Symbol', Displacement') \<longrightarrow>
        map_outcome (\<lambda>(hr, out). (hr, out\<lparr>FunctionNameOut := None\<rparr>))
          (ResolveStackFrameSymbolsInternal
             (Session\<lparr>findSymbolByRVAEx := (findSymbolByRVAEx Session)
                (Rva' := (h, Some (Symbol'\<lparr>get_undecoratedName := a, get_name := c\<rparr>),
                          Displacement'))\<rparr>) Rva' b out0) =
        map_outcome (\<lambda>(hr, out). (hr, out\<lparr>FunctionNameOut := None\<rparr>))
          (ResolveStackFrameSymbolsInternal Session Rva' b out0))
   \<and> (findSymbolByRVAEx Session Rva' = (h, Some Symbol', Displacement') \<and>
        fst (get_undecoratedName Symbol') \<noteq> S_OK \<longrightarrow>
        ResolveStackFrameSymbolsInternal Session Rva' b out0 =
        ResolveStackFrameSymbolsInternal
          (Session\<lparr>findSymbolByRVAEx := (findSymbolByRVAEx Session)
             (Rva' := (h, Some (Symbol'\<lparr>get_undecoratedName := (S_OK, SysAllocString [])\<rparr>),
                       Displacement'))\<rparr>) Rva' b out0)
   \<and> (findSymbolByRVAEx Session Rva' = (h, Some Symbol', Displacement') \<and>
        fst (get_name Symbol') \<noteq> S_OK \<longrightarrow>
        ResolveStackFrameSymbolsInternal Session Rva' b out0 =
        ResolveStackFrameSymbolsInternal
          (Session\<lparr>findSymbolByRVAEx := (findSymbolByRVAEx Session)
             (Rva' := (h, Some (Symbol'\<lparr>get_name := (S_OK, SysAllocString [])\<rparr>),
                       Displacement'))\<rparr>) Rva' b out0)"
proof (intro conjI impI)
  assume s: "\<not> FAILED (CoInitialize com) \<and>
    CoCreateInstance com 0 = (h1, Some pSource) \<and> \<not> FAILED h1 \<and>
    \<not> FAILED (loadDataFromPdb pSource PdbFilePath) \<and>
    openSession pSource = (h2, Some pSession) \<and> \<not> FAILED h2 \<and>
    findSymbolByRVAEx pSession Rva = (h3, Some Symbol, Displacement) \<and> \<not> FAILED h3 \<and>
    findLinesByRVA pSession Rva 1 = (h4, Some pEnum) \<and> \<not> FAILED h4 \<and>
    Next pEnum 1 = (h5, Some pLine, 1) \<and> \<not> FAILED h5 \<and>
    get_lineNumber pLine = (h6, LineNumber) \<and> \<not> FAILED h6 \<and>
    get_sourceFile pLine = (h7, Some pFile) \<and> \<not> FAILED h7 \<and>
    get_fileName pFile = (h8, FileName) \<and> \<not> FAILED h8"
  then have r: "ResolveStackFrameSymbols com PdbFilePath Rva Buffer0 InnerBuffer0 =
           Returns (S_OK, \<lparr>ErrorMessageOut = SysAllocString Buffer0, FileNameOut = FileName,
             LineNumberOut = LineNumber, FunctionNameOut = GetFunctionName Symbol,
             DisplacementOut = Displacement\<rparr>)"
    by (intro Resolve_resolves) blast+
  {
    assume "fst (get_undecoratedName Symbol) \<noteq> S_OK"
    then have "GetFunctionName Symbol =
        (if fst (get_name Symbol) = S_OK \<and> SysStringLen (snd (get_name Symbol)) \<noteq> 0
         then snd (get_name Symbol) else Some ''(None)'')"
      by (simp add: GetFunctionName_fallback)
    with r show "ResolveStackFrameSymbols com PdbFilePath Rva Buffer0 InnerBuffer0 =
           Returns (S_OK, \<lparr>ErrorMessageOut = SysAllocString Buffer0, FileNameOut = FileName,
             LineNumberOut = LineNumber,
             FunctionNameOut =
               (if fst (get_name Symbol) = S_OK \<and> SysStringLen (snd (get_name Symbol)) \<noteq> 0
                then snd (get_name Symbol) else Some ''(None)''),
             DisplacementOut = Displacement\<rparr>)"
      by simp
  }
  {
    assume "(fst (get_undecoratedName Symbol) \<noteq> S_OK
          \<or> SysStringLen (snd (get_undecoratedName Symbol)) = 0) \<and>
       fst (get_name Symbol) \<noteq> S_OK"
    then have "GetFunctionName Symbol = Some ''(None)''"
      by (auto simp: GetFunctionName_fallback)
    with r show "ResolveStackFrameSymbols com PdbFilePath Rva Buffer0 InnerBuffer0 =
           Returns (S_OK, \<lparr>ErrorMessageOut = SysAllocString Buffer0, FileNameOut = FileName,
             LineNumberOut = LineNumber, FunctionNameOut = Some ''(None)'',
             DisplacementOut = Displacement\<rparr>)"
      by simp
  }
next
  assume "findSymbolByRVAEx Session Rva' = (h, Some Symbol', Displacement')"
  then show "map_outcome (\<lambda>(hr, out). (hr, out\<lparr>FunctionNameOut := None\<rparr>))
          (ResolveStackFrameSymbolsInternal
             (Session\<lparr>findSymbolByRVAEx := (findSymbolByRVAEx Session)
                (Rva' := (h, Some (Symbol'\<lparr>get_undecoratedName := a, get_name := c\<rparr>),
                          Displacement'))\<rparr>) Rva' b out0) =
        map_outcome (\<lambda>(hr, out). (hr, out\<lparr>FunctionNameOut := None\<rparr>))
          (ResolveStackFrameSymbolsInternal Session Rva' b out0)"
    by (rule Internal_status_ignores_names)
next
  assume "findSymbolByRVAEx Session Rva' = (h, Some Symbol', Displacement') \<and>
        fst (get_undecoratedName Symbol') \<noteq> S_OK"
  then have f: "findSymbolByRVAEx Session Rva' = (h, Some Symbol', Displacement')"
    and "GetFunctionName (Symbol'\<lparr>get_undecoratedName := (S_OK, SysAllocString [])\<rparr>) =
         GetFunctionName Symbol'"
    by (simp_all add: GetFunctionName_failed_undecorated [symmetric])
  then show "ResolveStackFrameSymbolsInternal Session Rva' b out0 =
        ResolveStackFrameSymbolsInternal
          (Session\<lparr>findSymbolByRVAEx := (findSymbolByRVAEx Session)
             (Rva' := (h, Some (Symbol'\<lparr>get_undecoratedName := (S_OK, SysAllocString [])\<rparr>),
                       Displacement'))\<rparr>) Rva' b out0"
    by (rule Internal_depends_on_name_only [symmetric])
next
  assume "findSymbolByRVAEx Session Rva' = (h, Some Symbol', Displacement') \<and>
        fst (get_name Symbol') \<noteq> S_OK"
  then have f: "findSymbolByRVAEx Session Rva' = (h, Some Symbol', Displacement')"
    and "GetFunctionName (Symbol'\<lparr>get_name := (S_OK, SysAllocString [])\<rparr>) =
         GetFunctionName Symbol'"
    by (simp_all add: GetFunctionName_failed_name [symmetric])
  then show "ResolveStackFrameSymbolsInternal Session Rva' b out0 =
        ResolveStackFrameSymbolsInternal
          (Session\<lparr>findSymbolByRVAEx := (findSymbolByRVAEx Session)
             (Rva' := (h, Some (Symbol'\<lparr>get_name := (S_OK, SysAllocString [])\<rparr>),
                       Displacement'))\<rparr>) Rva' b out0"
    by (rule Internal_depends_on_name_only [symmetric])
qed

lemma example_findSymbol_0x1012:
  "findSymbolByRVAEx (store_session example_store) 0x1012 =
     (S_OK, Some (function_symbol \<lparr>functionStartAddress = 0x1000, functionLength = 0x100,
        undecoratedName = '''', rawName = ''main''\<rparr>), 0x12)"
  by (simp add: store_findSymbol [OF example_functions_0x1012])

theorem failed_name_query_advances_fallback_witness:
  "ResolveStackFrameSymbols (store_COM example_store example_store) ''app.pdb'' 0x1012 [] [] =
     Returns (S_OK, \<lparr>ErrorMessageOut = Some [], FileNameOut = Some ''main.c'',
        LineNumberOut = 42, FunctionNameOut = Some ''main'', DisplacementOut = 0x12\<rparr>)
   \<and> fst (get_undecoratedName (function_symbol \<lparr>functionStartAddress = 0x1000,
        functionLength = 0x100, undecoratedName = '''', rawName = ''main''\<rparr>)) = S_FALSE
   \<and> ResolveStackFrameSymbols unnamed_COM ''app.pdb'' 0x1012 [] [] =
     Returns (S_OK, \<lparr>ErrorMessageOut = Some [], FileNameOut = Some ''main.c'',
        LineNumberOut = 42, FunctionNameOut = Some ''(None)'', DisplacementOut = 0x12\<rparr>)"
  using
    failed_name_query_advances_fallback [where com = "store_COM example_store example_store"
      and ?h1.0 = S_OK and pSource = "store_source example_store" and PdbFilePath = "''app.pdb''"
      and ?h2.0 = S_OK and pSession = "store_session example_store" and Rva = "0x1012"
      and ?h3.0 = S_OK
      and Symbol = "function_symbol \<lparr>functionStartAddress = 0x1000, functionLength = 0x100,
        undecoratedName = '''', rawName = ''main''\<rparr>"
      and Displacement = "0x12" and ?h4.0 = S_OK
      and pEnum = "\<lparr>Next = enum_Next [line_number
        \<lparr>lineStartAddress = 0x1010, lineLength = 8, lineNumber = 42,
         sourceFileName = ''main.c''\<rparr>]\<rparr>"
      and ?h5.0 = S_OK
      and pLine = "line_number \<lparr>lineStartAddress = 0x1010, lineLength = 8, lineNumber = 42,
         sourceFileName = ''main.c''\<rparr>"
      and ?h6.0 = S_OK and LineNumber = 42 and ?h7.0 = S_OK
      and pFile = "\<lparr>get_fileName = (S_OK, Some ''main.c'')\<rparr>"
      and ?h8.0 = S_OK and FileName = "Some ''main.c''" and ?Buffer0.0 = "[]" and ?InnerBuffer0.0 = "[]",
      THEN conjunct1]
    failed_name_query_advances_fallback [where com = unnamed_COM
      and ?h1.0 = S_OK
      and pSource = "(store_source example_store)\<lparr>openSession := (S_OK, Some unnamed_session)\<rparr>"
      and PdbFilePath = "''app.pdb''"
      and ?h2.0 = S_OK and pSession = unnamed_session and Rva = "0x1012"
      and ?h3.0 = S_OK
      and Symbol = "\<lparr>get_undecoratedName = (E_FAIL, Some ''junk''),
                    get_name = (S_FALSE, None), get_guid = (S_FALSE, 0),
                    get_signature = (S_FALSE, 0), get_age = (S_FALSE, 0)\<rparr>"
      and Displacement = "0x12" and ?h4.0 = S_OK
      and pEnum = "\<lparr>Next = enum_Next [line_number
        \<lparr>lineStartAddress = 0x1010, lineLength = 8, lineNumber = 42,
         sourceFileName = ''main.c''\<rparr>]\<rparr>"
      and ?h5.0 = S_OK
      and pLine = "line_number \<lparr>lineStartAddress = 0x1010, lineLength = 8, lineNumber = 42,
         sourceFileName = ''main.c''\<rparr>"
      and ?h6.0 = S_OK and LineNumber = 42 and ?h7.0 = S_OK
      and pFile = "\<lparr>get_fileName = (S_OK, Some ''main.c'')\<rparr>"
      and ?h8.0 = S_OK and FileName = "Some ''main.c''" and ?Buffer0.0 = "[]" and ?InnerBuffer0.0 = "[]",
      THEN conjunct1]
  by (simp add: store_COM_answers store_source_answers example_findSymbol_0x1012
        example_findLines_0x1012 enum_Next_one line_number_answers
        unnamed_COM_answers unnamed_session_findSymbol unnamed_session_findLines
        function_symbol_def provider_name_def SysAllocString_def)

section \<open>Identity matching\<close>

lemma read_identity_SomeD:
  assumes "read_identity created load = Some m"
  shows "\<exists>h1 pSource h2 pSession h3 pSymbol g1 g2 g3.
           created = (h1, Some pSource) \<and> \<not> FAILED h1 \<and> \<not> FAILED (load pSource) \<and>
           openSession pSource = (h2, Some pSession) \<and> \<not> FAILED h2 \<and>
           get_globalScope pSession = (h3, Some pSymbol) \<and> \<not> FAILED h3 \<and>
           get_guid pSymbol = (g1, guid m) \<and> \<not> FAILED g1 \<and>
           get_signature pSymbol = (g2, signature m) \<and> \<not> FAILED g2 \<and>
           get_age pSymbol = (g3, age m) \<and> \<not> FAILED g3"
  using assms
  by (auto simp: read_identity_def deref_def prod_eq_iff
           split: prod.splits option.splits if_splits)

lemma Match_success:
  assumes i: "\<not> FAILED (CoInitialize com)"
      and m: "read_identity (CoCreateInstance com 0) (\<lambda>s. loadDataForExe s ExePath) = Some m"
      and p: "read_identity (CoCreateInstance com 1) (\<lambda>s. loadDataFromPdb s PdbPath) = Some p"
  shows "snd (MatchModuleWithPdbFile com ExePath PdbPath Buffer0) =
           Returns (S_OK, \<lparr>ErrorMessageOut = SysAllocString Buffer0,
             IsMatched = (guid p = guid m \<and> signature p = signature m \<and> age p = age m)\<rparr>)"
proof -
  from read_identity_SomeD [OF m] obtain h1 pSource h2 pSession h3 pSymbol g1 g2 g3 where
    e: "CoCreateInstance com 0 = (h1, Some pSource)" "\<not> FAILED h1"
       "\<not> FAILED (loadDataForExe pSource ExePath)"
       "openSession pSource = (h2, Some pSession)" "\<not> FAILED h2"
       "get_globalScope pSession = (h3, Some pSymbol)" "\<not> FAILED h3"
       "get_guid pSymbol = (g1, guid m)" "\<not> FAILED g1"
       "get_signature pSymbol = (g2, signature m)" "\<not> FAILED g2"
       "get_age pSymbol = (g3, age m)" "\<not> FAILED g3"
    by blast
  from read_identity_SomeD [OF p] obtain k1 qSource k2 qSession k3 qSymbol j1 j2 j3 where
    f: "CoCreateInstance com 1 = (k1, Some qSource)" "\<not> FAILED k1"
       "\<not> FAILED (loadDataFromPdb qSource PdbPath)"
       "openSession qSource = (k2, Some qSession)" "\<not> FAILED k2"
       "get_globalScope qSession = (k3, Some qSymbol)" "\<not> FAILED k3"
       "get_guid qSymbol = (j1, guid p)" "\<not> FAILED j1"
       "get_signature qSymbol = (j2, signature p)" "\<not> FAILED j2"
       "get_age qSymbol = (j3, age p)" "\<not> FAILED j3"
    by blast
  from f(1) have f1: "CoCreateInstance com (Suc 0) = (k1, Some qSource)" by simp
  have "snd (MatchModuleWithPdbFile_Pdb com PdbPath Buffer0 t (guid m) (signature m) (age m)) =
           Returns (S_OK, \<lparr>ErrorMessageOut = SysAllocString Buffer0,
             IsMatched = (guid p = guid m \<and> signature p = signature m \<and> age p = age m)\<rparr>)" for t
    unfolding MatchModuleWithPdbFile_Pdb_def
    by (simp add: f f1 deref_def Let_def Match_Cleanup_def)
  then show ?thesis
    unfolding MatchModuleWithPdbFile_def
    by (simp add: i e deref_def Let_def)
qed

lemma Match_Pdb_returns:
  assumes "snd (MatchModuleWithPdbFile_Pdb com PdbPath Buffer0 t g sg a) = Returns (hr, out)"
  shows "(hr = S_OK \<and>
          read_identity (CoCreateInstance com 1) (\<lambda>s. loadDataFromPdb s PdbPath) \<noteq> None) \<or>
         (FAILED hr \<and> \<not> IsMatched out \<and> SysStringLen (ErrorMessageOut out) \<noteq> 0)"
  using assms unfolding MatchModuleWithPdbFile_Pdb_def Match_Cleanup_def deref_def Let_def
  apply (auto simp: StringCchPrintfW_nonempty split: prod.splits option.splits if_splits)
  apply (simp_all add: read_identity_def deref_def)
  done

lemma Match_returns:
  assumes "snd (MatchModuleWithPdbFile com ExePath PdbPath Buffer0) = Returns (hr, out)"
  shows "(hr = S_OK \<and> \<not> FAILED (CoInitialize com) \<and>
          read_identity (CoCreateInstance com 0) (\<lambda>s. loadDataForExe s ExePath) \<noteq> None \<and>
          read_identity (CoCreateInstance com 1) (\<lambda>s. loadDataFromPdb s PdbPath) \<noteq> None) \<or>
         (FAILED hr \<and> \<not> IsMatched out \<and> SysStringLen (ErrorMessageOut out) \<noteq> 0)"
  using assms unfolding MatchModuleWithPdbFile_def Match_Cleanup_def deref_def Let_def
  apply (auto simp: StringCchPrintfW_nonempty split: prod.splits option.splits if_splits
              dest!: Match_Pdb_returns)
  apply (simp_all add: read_identity_def deref_def)
  done

lemma read_identity_store:
  "read_identity (S_OK, Some (store_source m)) (\<lambda>s. loadDataForExe s path) = Some (identity m)"
  "read_identity (S_OK, Some (store_source m)) (\<lambda>s. loadDataFromPdb s path) = Some (identity m)"
  by (simp_all add: read_identity_def deref_def store_source_answers store_global_answers)

lemma Match_store:
  "MatchModuleWithPdbFile (store_COM m s) ExePath PdbPath Buffer0 =
     ([EvCoInitialize,
       EvObtain Exe DataSourceIf, EvObtain Exe SessionIf, EvObtain Exe SymbolIf,
       EvRelease Exe SymbolIf, EvRelease Exe SessionIf, EvRelease Exe DataSourceIf,
       EvObtain Pdb DataSourceIf, EvObtain Pdb SessionIf, EvObtain Pdb SymbolIf,
       EvRelease Pdb SymbolIf, EvRelease Pdb SessionIf, EvRelease Pdb DataSourceIf,
       EvCoUninitialize],
      Returns (S_OK, \<lparr>ErrorMessageOut = SysAllocString Buffer0,
        IsMatched = (guid (identity s) = guid (identity m) \<and>
                     signature (identity s) = signature (identity m) \<and>
                     age (identity s) = age (identity m))\<rparr>))"
  unfolding MatchModuleWithPdbFile_def MatchModuleWithPdbFile_Pdb_def
  by (simp add: store_COM_answers store_source_answers store_global_answers
        deref_def Let_def Match_Cleanup_def obtained_def released_def)

text \<open>
  C2. When COM initialises and every query for the identity of the module and of the debug
  store succeeds, \<open>MatchModuleWithPdbFile\<close> returns \<open>S_OK\<close> and \<open>IsMatched\<close> is true if
  and only if the two triples agree in guid, signature and age: a triple that differs in a
  field gives \<open>S_OK\<close> with \<open>IsMatched\<close> false. Every return is either this one or a
  failure status with \<open>IsMatched\<close> false and a diagnostic that is not empty; so a query
  that fails is reported as an error.
\<close>

theorem match_reflects_identity_equality:
  "(\<not> FAILED (CoInitialize com) \<and>
    read_identity (CoCreateInstance com 0) (\<lambda>s. loadDataForExe s ExePath) = Some m \<and>
    read_identity (CoCreateInstance com 1) (\<lambda>s. loadDataFromPdb s PdbPath) = Some p \<longrightarrow>
      snd (MatchModuleWithPdbFile com ExePath PdbPath Buffer0) =
        Returns (S_OK, \<lparr>ErrorMessageOut = SysAllocString Buffer0,
          IsMatched = (guid p = guid m \<and> signature p = signature m \<and> age p = age m)\<rparr>))
   \<and> (snd (MatchModuleWithPdbFile com ExePath PdbPath Buffer0) = Returns (hr, out) \<longrightarrow>
        (hr = S_OK \<and> \<not> FAILED (CoInitialize com) \<and>
         read_identity (CoCreateInstance com 0) (\<lambda>s. loadDataForExe s ExePath) \<noteq> None \<and>
         read_identity (CoCreateInstance com 1) (\<lambda>s. loadDataFromPdb s PdbPath) \<noteq> None) \<or>
        (FAILED hr \<and> \<not> IsMatched out \<and> SysStringLen (ErrorMessageOut out) \<noteq> 0))"
  using Match_success [of com ExePath m PdbPath p Buffer0]
        Match_returns [of com ExePath PdbPath Buffer0 hr out]
  by blast

theorem match_reflects_identity_equality_witness:
  "snd (MatchModuleWithPdbFile (store_COM example_store example_store) ''app.exe'' ''app.pdb'' []) =
     Returns (S_OK, \<lparr>ErrorMessageOut = Some [], IsMatched = True\<rparr>)
   \<and> snd (MatchModuleWithPdbFile (store_COM rebuilt_module example_store) ''app.exe'' ''app.pdb'' []) =
     Returns (S_OK, \<lparr>ErrorMessageOut = Some [], IsMatched = False\<rparr>)"
  using
    match_reflects_identity_equality [of "store_COM example_store example_store"
      "''app.exe''" "identity example_store" "''app.pdb''" "identity example_store" "[]",
      THEN conjunct1]
    match_reflects_identity_equality [of "store_COM rebuilt_module example_store"
      "''app.exe''" "identity rebuilt_module" "''app.pdb''" "identity example_store" "[]",
      THEN conjunct1]
  by (simp add: store_COM_answers read_identity_store SysAllocString_def
        rebuilt_module_def example_store_def)

section \<open>The order of acquisitions and releases\<close>

lemma Match_Pdb_trace:
  assumes "t = [EvCoInitialize, EvObtain Exe DataSourceIf, EvObtain Exe SessionIf,
                EvObtain Exe SymbolIf, EvRelease Exe SymbolIf, EvRelease Exe SessionIf,
                EvRelease Exe DataSourceIf]"
      and "tr = fst (MatchModuleWithPdbFile_Pdb com PdbPath Buffer0 t g sg a)"
  shows "never_both tr
       \<and> (EvObtain Pdb DataSourceIf \<in> set tr \<longrightarrow>
            handles_held (before_store_open tr) = [] \<and> com_active (before_store_open tr))
       \<and> (snd (MatchModuleWithPdbFile_Pdb com PdbPath Buffer0 t g sg a) \<noteq> AccessViolation \<longrightarrow>
            last tr = EvCoUninitialize \<and> EvCoUninitialize \<notin> set (butlast tr) \<and>
            handles_held tr = [])"
  unfolding assms MatchModuleWithPdbFile_Pdb_def Match_Cleanup_def deref_def Let_def
  by (auto simp: obtained_def released_def never_both_def one_sided_def handles_held_def
        com_active_def before_store_open_def
        split: prod.splits option.splits if_splits)

lemma Match_trace:
  assumes "tr = fst (MatchModuleWithPdbFile com ExePath PdbPath Buffer0)"
  shows "never_both tr
       \<and> (EvObtain Pdb DataSourceIf \<in> set tr \<longrightarrow>
            handles_held (before_store_open tr) = [] \<and> com_active (before_store_open tr))
       \<and> (snd (MatchModuleWithPdbFile com ExePath PdbPath Buffer0) \<noteq> AccessViolation \<longrightarrow>
            last tr = EvCoUninitialize \<and> EvCoUninitialize \<notin> set (butlast tr) \<and>
            handles_held tr = [])"
  unfolding assms MatchModuleWithPdbFile_def Match_Cleanup_def deref_def Let_def
  apply (auto simp: obtained_def released_def Match_Pdb_trace [OF refl refl]
        split: prod.splits option.splits if_splits)
  apply (simp_all add: never_both_def one_sided_def handles_held_def
        com_active_def before_store_open_def)
  done

lemma Match_Pdb_com_calls:
  assumes "t = [EvCoInitialize, EvObtain Exe DataSourceIf, EvObtain Exe SessionIf,
                EvObtain Exe SymbolIf, EvRelease Exe SymbolIf, EvRelease Exe SessionIf,
                EvRelease Exe DataSourceIf]"
      and "tr = fst (MatchModuleWithPdbFile_Pdb com PdbPath Buffer0 t g sg a)"
  shows "tr \<noteq> [] \<and> hd tr = EvCoInitialize \<and> EvCoInitialize \<notin> set (tl tr)
       \<and> (snd (MatchModuleWithPdbFile_Pdb com PdbPath Buffer0 t g sg a) = AccessViolation \<longrightarrow>
            EvCoUninitialize \<notin> set tr)"
  unfolding assms MatchModuleWithPdbFile_Pdb_def Match_Cleanup_def deref_def Let_def
  by (auto simp: obtained_def released_def split: prod.splits option.splits if_splits)

lemma Match_com_calls:
  assumes "tr = fst (MatchModuleWithPdbFile com ExePath PdbPath Buffer0)"
  shows "tr \<noteq> [] \<and> hd tr = EvCoInitialize \<and> EvCoInitialize \<notin> set (tl tr)
       \<and> (snd (MatchModuleWithPdbFile com ExePath PdbPath Buffer0) = AccessViolation \<longrightarrow>
            EvCoUninitialize \<notin> set tr)"
  unfolding assms MatchModuleWithPdbFile_def Match_Cleanup_def deref_def Let_def
  by (auto simp: obtained_def released_def Match_Pdb_com_calls [OF refl refl]
        split: prod.splits option.splits if_splits)

text \<open>
  C8, as amended. In every run of \<open>MatchModuleWithPdbFile\<close>, \<^verbatim>\<open>CoInitialize\<close> is the
  first step and is called once; no interface of the module is held together with one of
  the debug store; when the data source of the debug store is created, every interface of
  the module has been released, and the COM runtime is still initialised; a run that
  returns ends with the one call of \<^verbatim>\<open>CoUninitialize\<close>, with no interface held, and a
  run that stops at a \<^verbatim>\<open>NULL\<close> pointer never calls it.
\<close>

theorem module_released_before_store_opened:
  assumes "tr = fst (MatchModuleWithPdbFile com ExePath PdbPath Buffer0)"
  shows "tr \<noteq> [] \<and> hd tr = EvCoInitialize \<and> EvCoInitialize \<notin> set (tl tr)
       \<and> never_both tr
       \<and> (EvObtain Pdb DataSourceIf \<in> set tr \<longrightarrow>
            handles_held (before_store_open tr) = [] \<and> com_active (before_store_open tr))
       \<and> (snd (MatchModuleWithPdbFile com ExePath PdbPath Buffer0) \<noteq> AccessViolation \<longrightarrow>
            last tr = EvCoUninitialize \<and> EvCoUninitialize \<notin> set (butlast tr) \<and>
            handles_held tr = [])
       \<and> (snd (MatchModuleWithPdbFile com ExePath PdbPath Buffer0) = AccessViolation \<longrightarrow>
            EvCoUninitialize \<notin> set tr)"
  using Match_trace [OF assms] Match_com_calls [OF assms] by blast

theorem module_released_before_store_opened_witness:
  "hd (fst (MatchModuleWithPdbFile (store_COM example_store example_store)
      ''app.exe'' ''app.pdb'' [])) = EvCoInitialize
   \<and> EvCoInitialize \<notin> set (tl (fst (MatchModuleWithPdbFile
        (store_COM example_store example_store) ''app.exe'' ''app.pdb'' [])))
   \<and> never_both (fst (MatchModuleWithPdbFile (store_COM example_store example_store)
      ''app.exe'' ''app.pdb'' []))
   \<and> handles_held (before_store_open (fst (MatchModuleWithPdbFile
        (store_COM example_store example_store) ''app.exe'' ''app.pdb'' []))) = []
   \<and> com_active (before_store_open (fst (MatchModuleWithPdbFile
        (store_COM example_store example_store) ''app.exe'' ''app.pdb'' [])))
   \<and> last (fst (MatchModuleWithPdbFile (store_COM example_store example_store)
        ''app.exe'' ''app.pdb'' [])) = EvCoUninitialize
   \<and> EvCoUninitialize \<notin> set (butlast (fst (MatchModuleWithPdbFile
        (store_COM example_store example_store) ''app.exe'' ''app.pdb'' [])))"
  using module_released_before_store_opened [OF refl,
    of "store_COM example_store example_store" "''app.exe''" "''app.pdb''" "[]"]
  by (simp add: Match_store)

text \<open>
  C8, as stated, asks for the initialisation made for the module to be torn down before the
  debug store is opened. In the run on the example store the data source of the store is
  created after the seven events below, none of which is \<^verbatim>\<open>CoUninitialize\<close>: the COM
  runtime is still initialised at that moment.
\<close>

theorem com_still_initialised_when_store_opened:
  "EvObtain Pdb DataSourceIf \<in> set (fst (MatchModuleWithPdbFile
      (store_COM example_store example_store) ''app.exe'' ''app.pdb'' []))
   \<and> before_store_open (fst (MatchModuleWithPdbFile
        (store_COM example_store example_store) ''app.exe'' ''app.pdb'' [])) =
      [EvCoInitialize, EvObtain Exe DataSourceIf, EvObtain Exe SessionIf, EvObtain Exe SymbolIf,
       EvRelease Exe SymbolIf, EvRelease Exe SessionIf, EvRelease Exe DataSourceIf]
   \<and> com_active (before_store_open (fst (MatchModuleWithPdbFile
        (store_COM example_store example_store) ''app.exe'' ''app.pdb'' [])))"
  by (simp add: Match_store before_store_open_def com_active_def)

section \<open>What a failing call leaves in the out parameters\<close>

lemma Internal_fields_unless_S_OK:
  assumes "ResolveStackFrameSymbolsInternal Session Rva b out = Returns (hr, out')"
      and "hr \<noteq> S_OK"
  shows "FileNameOut out' = FileNameOut out \<and> LineNumberOut out' = LineNumberOut out \<and>
         FunctionNameOut out' = FunctionNameOut out \<and> DisplacementOut out' = DisplacementOut out"
  using assms
  by (auto simp: ResolveStackFrameSymbolsInternal_def Internal_Exit_def deref_def Let_def
           split: prod.splits option.splits if_splits)

lemma Resolve_fields_reset_unless_S_OK:
  assumes "ResolveStackFrameSymbols com PdbFilePath Rva Buffer0 InnerBuffer0 = Returns (hr, out)"
      and "hr \<noteq> S_OK"
  shows "FileNameOut out = None \<and> LineNumberOut out = 0 \<and>
         FunctionNameOut out = None \<and> DisplacementOut out = 0"
  using assms
  by (auto simp: ResolveStackFrameSymbols_def Resolve_Cleanup_def deref_def Let_def
           split: prod.splits option.splits if_splits outcome.splits
           dest!: Internal_fields_unless_S_OK)

lemma Resolve_status_and_fields_ignore_buffers:
  "map_outcome (\<lambda>(hr, out). (hr, FileNameOut out, LineNumberOut out, FunctionNameOut out,
       DisplacementOut out)) (ResolveStackFrameSymbols com PdbFilePath Rva b1 b2) =
   map_outcome (\<lambda>(hr, out). (hr, FileNameOut out, LineNumberOut out, FunctionNameOut out,
       DisplacementOut out)) (ResolveStackFrameSymbols com PdbFilePath Rva c1 c2)"
  by (auto simp: ResolveStackFrameSymbols_def Resolve_Cleanup_def deref_def Let_def
        ResolveStackFrameSymbolsInternal_def Internal_Exit_def
        split: prod.splits option.splits if_splits outcome.splits)

section \<open>Runs on the example stores\<close>

lemma hex_E_FAIL: "hex_of_nat (unat E_FAIL) = ''80004005''"
  by (simp add: E_FAIL_def hex_of_nat.simps hex_digit_def)

lemma hex_S_FALSE: "hex_of_nat (unat S_FALSE) = ''1''"
  by (simp add: S_FALSE_def hex_of_nat.simps hex_digit_def)

lemma message_find_symbol_E_FAIL:
  "StringCchPrintfW ''Failed to find Symbol by RVA (HRESULT: 0x%lX)'' E_FAIL =
     ''Failed to find Symbol by RVA (HRESULT: 0x80004005)''"
  by (simp add: StringCchPrintfW_def hex_E_FAIL)

lemma message_enumerate_S_FALSE:
  "StringCchPrintfW ''Failed to enumerate line number (HRESULT: 0x%lX)'' S_FALSE =
     ''Failed to enumerate line number (HRESULT: 0x1)''"
  by (simp add: StringCchPrintfW_def hex_S_FALSE)

lemma example_functions_0x1020:
  "filter (\<lambda>f. range_contains (functionStartAddress f) (functionLength f) 0x1020)
     (functionSymbols example_store) =
   [\<lparr>functionStartAddress = 0x1000, functionLength = 0x100,
     undecoratedName = '''', rawName = ''main''\<rparr>]"
  by (simp add: example_store_def range_contains_def)

lemma example_lines_0x1020:
  "filter (\<lambda>l. range_contains (lineStartAddress l) (lineLength l) 0x1020)
     (lineRecords example_store) = []"
  by (simp add: example_store_def range_contains_def)

lemma example_functions_0x1112:
  "filter (\<lambda>f. range_contains (functionStartAddress f) (functionLength f) 0x1112)
     (functionSymbols example_store) =
   [\<lparr>functionStartAddress = 0x1100, functionLength = 0x80,
     undecoratedName = ''Widget::draw'', rawName = ''?draw@Widget@@QEAAXXZ''\<rparr>]"
  by (simp add: example_store_def range_contains_def)

lemma example_lines_0x1112:
  "filter (\<lambda>l. range_contains (lineStartAddress l) (lineLength l) 0x1112)
     (lineRecords example_store) =
   [\<lparr>lineStartAddress = 0x1110, lineLength = 4, lineNumber = 7, sourceFileName = ''widget.cpp''\<rparr>,
    \<lparr>lineStartAddress = 0x1112, lineLength = 4, lineNumber = 8, sourceFileName = ''widget.cpp''\<rparr>]"
  by (simp add: example_store_def range_contains_def)

lemma Internal_failing_lookup:
  "ResolveStackFrameSymbolsInternal failing_lookup_session Rva b out =
     Internal_Exit E_FAIL
       (StringCchPrintfW ''Failed to find Symbol by RVA (HRESULT: 0x%lX)'' E_FAIL) out"
  by (simp add: ResolveStackFrameSymbolsInternal_def failing_lookup_session_def)

lemma Resolve_failing_lookup:
  "ResolveStackFrameSymbols failing_lookup_COM path Rva b1 b2 =
     Returns (E_FAIL, \<lparr>ErrorMessageOut = Some b1, FileNameOut = None, LineNumberOut = 0,
        FunctionNameOut = None, DisplacementOut = 0\<rparr>)"
  by (simp add: ResolveStackFrameSymbols_def failing_lookup_COM_def deref_def
        Internal_failing_lookup Internal_Exit_def Resolve_Cleanup_def SysAllocString_def)

lemma Resolve_example_0x1012:
  "ResolveStackFrameSymbols (store_COM example_store example_store) path 0x1012 b1 b2 =
     Returns (S_OK, \<lparr>ErrorMessageOut = Some b1, FileNameOut = Some ''main.c'',
        LineNumberOut = 42, FunctionNameOut = Some ''main'', DisplacementOut = 0x12\<rparr>)"
  by (simp add: Resolve_store Internal_store_one [OF example_functions_0x1012 example_lines_0x1012]
        Internal_Exit_def Resolve_Cleanup_def SysAllocString_def function_symbol_name)

lemma Resolve_example_0x1020:
  "ResolveStackFrameSymbols (store_COM example_store example_store) path 0x1020 b1 b2 =
     Returns (S_FALSE, \<lparr>ErrorMessageOut = Some b1, FileNameOut = None,
        LineNumberOut = 0, FunctionNameOut = None, DisplacementOut = 0\<rparr>)"
  by (simp add: Resolve_store Internal_store_none [OF example_functions_0x1020 example_lines_0x1020]
        Internal_Exit_def Resolve_Cleanup_def SysAllocString_def)

lemma Resolve_example_0x1112:
  "ResolveStackFrameSymbols (store_COM example_store example_store) path 0x1112 b1 b2 =
     Returns (S_OK, \<lparr>ErrorMessageOut = Some b1, FileNameOut = Some ''widget.cpp'',
        LineNumberOut = 7, FunctionNameOut = Some ''Widget::draw'', DisplacementOut = 0x12\<rparr>)"
  by (simp add: Resolve_store Internal_store_many [OF example_functions_0x1112 example_lines_0x1112]
        Internal_Exit_def Resolve_Cleanup_def SysAllocString_def function_symbol_name)

text \<open>
  C3 on the code. At \<open>0x1020\<close> the example store has the function \<open>main\<close> and no line
  record: the inner function formats its message for the enumeration and leaves with the
  status of \<^verbatim>\<open>Next\<close>, \<open>S_FALSE\<close>, which \<^verbatim>\<open>FAILED\<close> does not count as a failure, and
  that status is what the caller receives. At \<open>0x1112\<close> two line records cover the
  address: \<^verbatim>\<open>Next\<close> is asked for one, hands out the first, and the call returns \<open>S_OK\<close>
  with line 7.
\<close>

theorem zero_or_many_line_records_not_a_failure:
  "ResolveStackFrameSymbols (store_COM example_store example_store) ''app.pdb'' 0x1020
       ''stale'' ''junk'' =
     Returns (S_FALSE, \<lparr>ErrorMessageOut = Some ''stale'', FileNameOut = None,
        LineNumberOut = 0, FunctionNameOut = None, DisplacementOut = 0\<rparr>)
   \<and> \<not> FAILED S_FALSE
   \<and> ResolveStackFrameSymbolsInternal (store_session example_store) 0x1020 ''junk''
        \<lparr>ErrorMessageOut = None, FileNameOut = None, LineNumberOut = 0,
         FunctionNameOut = None, DisplacementOut = 0\<rparr> =
     Returns (S_FALSE, \<lparr>ErrorMessageOut = Some ''Failed to enumerate line number (HRESULT: 0x1)'',
        FileNameOut = None, LineNumberOut = 0, FunctionNameOut = None, DisplacementOut = 0\<rparr>)
   \<and> ResolveStackFrameSymbols (store_COM example_store example_store) ''app.pdb'' 0x1112
       ''stale'' ''junk'' =
     Returns (S_OK, \<lparr>ErrorMessageOut = Some ''stale'', FileNameOut = Some ''widget.cpp'',
        LineNumberOut = 7, FunctionNameOut = Some ''Widget::draw'', DisplacementOut = 0x12\<rparr>)"
  by (simp add: Resolve_example_0x1020 Resolve_example_0x1112
        Internal_store_none [OF example_functions_0x1020 example_lines_0x1020]
        Internal_Exit_def message_enumerate_S_FALSE SysAllocString_def)

text \<open>
  C4 on the code. Both entry points return \<open>S_OK\<close> on the example store, and the
  diagnostic each returns is what its format buffer, never written in that run, held on
  entry.
\<close>

theorem diagnostic_on_success_is_stale_buffer:
  "ResolveStackFrameSymbols (store_COM example_store example_store) ''app.pdb'' 0x1012
       ''stale'' ''junk'' =
     Returns (S_OK, \<lparr>ErrorMessageOut = Some ''stale'', FileNameOut = Some ''main.c'',
        LineNumberOut = 42, FunctionNameOut = Some ''main'', DisplacementOut = 0x12\<rparr>)
   \<and> snd (MatchModuleWithPdbFile (store_COM example_store example_store) ''app.exe'' ''app.pdb''
       ''stale'') =
     Returns (S_OK, \<lparr>ErrorMessageOut = Some ''stale'', IsMatched = True\<rparr>)"
  by (simp add: Resolve_example_0x1012 Match_store SysAllocString_def)

text \<open>
  C5 on the code. The symbol lookup fails with \<open>E_FAIL\<close>; the four fields stay reset (as
  in every call that does not return \<open>S_OK\<close>, see \<open>Resolve_fields_reset_unless_S_OK\<close>),
  but the diagnostic is the entry content of the outer format buffer, here the empty string.
\<close>

theorem failing_call_with_empty_diagnostic:
  "ResolveStackFrameSymbols failing_lookup_COM ''app.pdb'' 0x1012 [] ''junk'' =
     Returns (E_FAIL, \<lparr>ErrorMessageOut = Some [], FileNameOut = None, LineNumberOut = 0,
        FunctionNameOut = None, DisplacementOut = 0\<rparr>)
   \<and> FAILED E_FAIL
   \<and> SysStringLen (Some []) = 0"
  by (simp add: Resolve_failing_lookup)

text \<open>
  C6 on the code. The inner function stores the message of the failing step, with the
  status of the provider; the label \<^verbatim>\<open>Cleanup\<close> of the caller then stores the content of
  its own format buffer, which was never written.
\<close>

theorem first_failure_message_overwritten:
  "ResolveStackFrameSymbolsInternal failing_lookup_session 0x1012 ''junk''
        \<lparr>ErrorMessageOut = None, FileNameOut = None, LineNumberOut = 0,
         FunctionNameOut = None, DisplacementOut = 0\<rparr> =
     Returns (E_FAIL, \<lparr>ErrorMessageOut = Some ''Failed to find Symbol by RVA (HRESULT: 0x80004005)'',
        FileNameOut = None, LineNumberOut = 0, FunctionNameOut = None, DisplacementOut = 0\<rparr>)
   \<and> ResolveStackFrameSymbols failing_lookup_COM ''app.pdb'' 0x1012 ''stale'' ''junk'' =
     Returns (E_FAIL, \<lparr>ErrorMessageOut = Some ''stale'', FileNameOut = None, LineNumberOut = 0,
        FunctionNameOut = None, DisplacementOut = 0\<rparr>)"
  by (simp add: Resolve_failing_lookup Internal_failing_lookup Internal_Exit_def
        message_find_symbol_E_FAIL SysAllocString_def)

text \<open>
  C9 on the code. Two runs with the same path, the same address and the same answers of
  the provider, which differ only in what the format buffer held on entry: the status and
  the four fields agree (see \<open>Resolve_status_and_fields_ignore_buffers\<close>), the
  diagnostics do not.
\<close>

theorem same_call_two_diagnostics:
  "ResolveStackFrameSymbols (store_COM example_store example_store) ''app.pdb'' 0x1012
       ''first'' ''junk'' =
     Returns (S_OK, \<lparr>ErrorMessageOut = Some ''first'', FileNameOut = Some ''main.c'',
        LineNumberOut = 42, FunctionNameOut = Some ''main'', DisplacementOut = 0x12\<rparr>)
   \<and> ResolveStackFrameSymbols (store_COM example_store example_store) ''app.pdb'' 0x1012
       ''second'' ''junk'' =
     Returns (S_OK, \<lparr>ErrorMessageOut = Some ''second'', FileNameOut = Some ''main.c'',
        LineNumberOut = 42, FunctionNameOut = Some ''main'', DisplacementOut = 0x12\<rparr>)"
  by (simp add: Resolve_example_0x1012)

end
